theory Spec2Isabelle
  imports Complex_Main "HOL-Library.Sublist"
begin

section \<open>The piecewise-constant rate of the change-point model\<close>

text \<open>
  Recipe 7.7 defines the rate of the Poisson process as a Python function over the
  global array \<open>arr\<close> of yearly counts:
  \<^verbatim>\<open>
  def rate(s=switchpoint, e=early_mean, l=late_mean):
      out = np.empty(len(arr))
      out[:s] = e
      out[s:] = l
      return out
  \<close>
  \<open>np.empty\<close> allocates without initialising, so a cell of the array is \<open>None\<close> until
  a slice assignment writes it. A Python slice bound is never out of range: a negative
  bound counts from the end, and the result is clamped to \<open>0 .. n\<close>.
\<close>

definition slice_index :: "nat \<Rightarrow> int \<Rightarrow> nat" where
  "slice_index n i = (if i < 0 then nat (max 0 (int n + i)) else min (nat i) n)"

definition np_empty :: "nat \<Rightarrow> 'a option list" where
  "np_empty n = replicate n None"

text \<open>\<open>out[lo:hi] = v\<close> with both bounds already normalised.\<close>

definition assign_slice :: "'a option list \<Rightarrow> nat \<Rightarrow> nat \<Rightarrow> 'a \<Rightarrow> 'a option list" where
  "assign_slice out lo hi v =
     map (\<lambda>(i, x). if lo \<le> i \<and> i < hi then Some v else x) (zip [0..<length out] out)"

definition rate :: "int list \<Rightarrow> int \<Rightarrow> 'a \<Rightarrow> 'a \<Rightarrow> 'a option list" where
  "rate arr s e l =
     (let n = length arr;
          out = np_empty n;
          out = assign_slice out 0 (slice_index n s) e;
          out = assign_slice out (slice_index n s) n l
      in out)"

section \<open>The storm table and the yearly counts\<close>

text \<open>
  The input table has one row per storm observation. The notebook reads three of its
  columns; whatever else a row carries is the extension of the record.
\<close>

record storm =
  Basin :: string
  Season :: int
  Serial_Num :: string

text \<open>
  A Python exception of the run: the \<open>IndexError\<close> of a position outside an index, or
  whatever value a library call raised.
\<close>

datatype 'e exn = IndexError | LibraryError 'e

text \<open>
  Reading one position of an index, as in \<open>years[0]\<close> and \<open>years[-1]\<close>. A position
  from 0 on is taken from the front, a position below 0 from the back; a position that
  falls outside the index raises.
\<close>

definition getitem :: "'a list \<Rightarrow> int \<Rightarrow> 'e exn + 'a" where
  "getitem xs i =
     (if 0 \<le> i then
        (if nat i < length xs then Inr (xs ! nat i) else Inl IndexError)
      else
        (if nat (- i) \<le> length xs then Inr (xs ! (length xs - nat (- i)))
         else Inl IndexError))"

text \<open>
  Modelled from the spec: pandas is not part of the repository. \<open>groupby('Season')\<close>
  makes one group per distinct season, in ascending order of the season, holding the rows
  of that season; \<open>nunique\<close> is the number of distinct values of a column.
\<close>

definition groupby_Season :: "'x storm_scheme list \<Rightarrow> (int \<times> 'x storm_scheme list) list" where
  "groupby_Season df =
     map (\<lambda>y. (y, filter (\<lambda>r. Season r = y) df)) (sort (remdups (map Season df)))"

definition nunique :: "'a list \<Rightarrow> int" where
  "nunique xs = int (length (remdups xs))"

text \<open>
  \<^verbatim>\<open>
  cnt = df[df['Basin'] == ' NA'].groupby('Season')['Serial_Num'].nunique()
  \<close>
  The result is a series: the index (the seasons) paired with the values (the counts).
\<close>

definition cnt :: "'x storm_scheme list \<Rightarrow> (int \<times> int) list" where
  "cnt df =
     map (\<lambda>(y, g). (y, nunique (map Serial_Num g)))
       (groupby_Season (filter (\<lambda>r. Basin r = '' NA'') df))"

section \<open>The probabilistic model\<close>

text \<open>
  The nodes the notebook declares with PyMC: a node has a name and its parameters; a
  parameter that is another node is given by that node's name. The deterministic node
  carries the names of its parents (the defaults of the arguments of \<open>rate\<close>); the
  Poisson node carries its mean, its value and whether it is observed.
\<close>

datatype node =
    DiscreteUniform string int int
  | Exponential string int
  | Deterministic string "string list"
  | Poisson string string "int list" bool

definition switchpoint :: "int list \<Rightarrow> node" where
  "switchpoint arr = DiscreteUniform ''switchpoint'' 0 (int (length arr))"

definition early_mean :: node where
  "early_mean = Exponential ''early_mean'' 1"

definition late_mean :: node where
  "late_mean = Exponential ''late_mean'' 1"

definition rate_node :: node where
  "rate_node = Deterministic ''rate'' [''switchpoint'', ''early_mean'', ''late_mean'']"

definition storms :: "int list \<Rightarrow> node" where
  "storms arr = Poisson ''storms'' ''rate'' arr True"

definition model :: "int list \<Rightarrow> node list" where
  "model arr = [switchpoint arr, early_mean, late_mean, rate_node, storms arr]"




text \<open>
  Modelled from the spec: PyMC is not part of the repository. A discrete uniform variable
  takes the integers from \<open>lower\<close> to \<open>upper\<close>, both included. The other nodes
  of the model are not given a support here.
\<close>

fun support :: "node \<Rightarrow> int set" where
  "support (DiscreteUniform _ lower upper) = {lower..upper}"

text \<open>
  Modelled from the spec: the sampling loop is PyMC's. Of the iterations
  \<open>0, \<dots>, iter - 1\<close> it keeps in the trace of every variable those that are past the
  burn-in and a multiple of the thinning interval.
\<close>

definition tallied :: "nat \<Rightarrow> nat \<Rightarrow> nat \<Rightarrow> nat list" where
  "tallied iter burn thin = filter (\<lambda>i. burn \<le> i \<and> i mod thin = 0) [0..<iter]"

section \<open>The notebook seen from its two collaborators\<close>

text \<open>
  A first view of recipe 7.7 keeps the data that flow through it and its two collaborators:
  \<open>read_csv\<close>, which for a path returns the table or raises, and \<open>sample\<close>, which for
  a model and a schedule returns the traces or raises. It returns the calls to the two
  collaborators and the two plots of the counts, in order, and either the exception that
  ended the run or its values. The run with every library call of its cells, each of which
  may raise, is \<open>storms_recipe\<close> below; the two views are related by a lemma.
\<close>

definition csv_path :: string where
  "csv_path = ''data/Allstorms.ibtracs_wmo.v03r05.csv''"

datatype call =
    ReadCsv string
  | Plot "int list" "int list"
  | Sample "node list" nat nat nat

fun is_ReadCsv :: "call \<Rightarrow> bool" where
  "is_ReadCsv (ReadCsv _) = True"
| "is_ReadCsv _ = False"


record 't fitted =
  out_years :: "int list"
  out_arr :: "int list"
  out_y0 :: int
  out_y1 :: int
  out_mcmc :: 't

definition notebook ::
  "(string \<Rightarrow> 'e + 'x storm_scheme list) \<Rightarrow> (node list \<Rightarrow> nat \<Rightarrow> nat \<Rightarrow> nat \<Rightarrow> 'e + 't) \<Rightarrow>
     call list \<times> ('e exn + 't fitted)" where
  "notebook read_csv sample =
     (case read_csv csv_path of
        Inl e \<Rightarrow> ([ReadCsv csv_path], Inl (LibraryError e))
      | Inr df \<Rightarrow>
          (let c = cnt df; years = map fst c; arr = map snd c in
           case getitem years 0 of
             Inl e \<Rightarrow> ([ReadCsv csv_path], Inl e)
           | Inr y0 \<Rightarrow>
               (case getitem years (- 1) of
                  Inl e \<Rightarrow> ([ReadCsv csv_path], Inl e)
                | Inr y1 \<Rightarrow>
                    (case sample (model arr) 10000 1000 10 of
                       Inl e \<Rightarrow>
                         ([ReadCsv csv_path, Plot years arr, Sample (model arr) 10000 1000 10],
                          Inl (LibraryError e))
                     | Inr t \<Rightarrow>
                         ([ReadCsv csv_path, Plot years arr, Sample (model arr) 10000 1000 10,
                           Plot years arr],
                          Inr \<lparr>out_years = years, out_arr = arr, out_y0 = y0, out_y1 = y1,
                               out_mcmc = t\<rparr>)))))"

section \<open>The number theory recipe\<close>

text \<open>
  Recipe 15.5 calls SymPy: \<open>nt.isprime(2011)\<close>, \<open>nt.primepi(2011)\<close> and
  \<open>solve_congruence((1, 3), (2, 4), (3, 5))\<close>.

  Modelled from the spec: SymPy is not part of the repository. A prime is an integer from
  2 on that no integer strictly between 1 and itself divides; the prime-counting function
  is the count of primes up to \<open>x\<close>.
\<close>

definition isprime :: "int \<Rightarrow> bool" where
  "isprime n = (2 \<le> n \<and> (\<forall>d \<in> {2..<n}. \<not> d dvd n))"

definition primepi :: "int \<Rightarrow> int" where
  "primepi x = int (length (filter isprime [2..x]))"

text \<open>
  Modelled from the spec: SymPy is not part of the repository. The congruences are given
  as pairs of a remainder and a modulus; the solver returns the solution between 0 and
  the least common multiple of the moduli together with that least common multiple, or
  nothing when the congruences have no common solution.
\<close>

definition solve_congruence :: "(int \<times> int) list \<Rightarrow> (int \<times> int) option" where
  "solve_congruence rm =
     (let m = fold lcm (map snd rm) 1 in
      case filter (\<lambda>x. list_all (\<lambda>(r, mi). x mod mi = r mod mi) rm) [0..m - 1] of
        [] \<Rightarrow> None
      | x # _ \<Rightarrow> Some (x, m))"

section \<open>A run and its library calls\<close>

text \<open>
  Both notebooks are straight-line sequences of calls into pandas, PyMC, NumPy, matplotlib
  and SymPy. A call is recorded by the name of the function or method and the arguments
  written in the source (keyword arguments with their keyword).
\<close>

datatype arg =
    AInt int
  | AReal real
  | AStr string
  | AInts "int list"
  | AReals "real list"
  | ABools "bool list"
  | ANode node
  | ANodes "node list"
  | ATuple "arg list"
  | AKw string arg

datatype libcall = Call string "arg list"

text \<open>
  The world of a run decides what the code does not: whether the \<open>k\<close>-th library call of
  the run raises, and with what; the table that a CSV file holds; and the state of the
  Markov chain (switch point, early mean, late mean) after each iteration of the sampler.
\<close>

record ('e, 'x) world =
  raises :: "nat \<Rightarrow> libcall \<Rightarrow> 'e option"
  csv_file :: "string \<Rightarrow> 'x storm_scheme list"
  chain :: "nat \<Rightarrow> int \<times> real \<times> real"

text \<open>
  A run takes the calls made so far and returns them extended, with the exception that
  ended it or its value. \<open>lib\<close> is one library call: it records the call, raises what the
  world raises there, and otherwise has the given outcome. \<open>seq\<close> runs one step after
  another and stops at the first exception, as statements in a cell and cells in a
  notebook do; neither notebook has a \<open>try\<close> statement, so there is no other way to
  combine steps.
\<close>

type_synonym ('e, 'a) run = "libcall list \<Rightarrow> libcall list \<times> ('e exn + 'a)"

definition ret :: "'a \<Rightarrow> ('e, 'a) run" where
  "ret v past = (past, Inr v)"

definition seq :: "('e, 'a) run \<Rightarrow> ('a \<Rightarrow> ('e, 'b) run) \<Rightarrow> ('e, 'b) run" where
  "seq m f past = (case m past of (past', Inl x) \<Rightarrow> (past', Inl x) | (past', Inr v) \<Rightarrow> f v past')"

definition lib :: "('e, 'x) world \<Rightarrow> libcall \<Rightarrow> 'e exn + 'a \<Rightarrow> ('e, 'a) run" where
  "lib w c r past =
     (past @ [c], case raises w (length past) c of Some e \<Rightarrow> Inl (LibraryError e) | None \<Rightarrow> r)"

primrec calls :: "('e, 'x) world \<Rightarrow> libcall list \<Rightarrow> ('e, unit) run" where
  "calls w [] = ret ()"
| "calls w (c # cs) = seq (lib w c (Inr ())) (\<lambda>_. calls w cs)"


fun is_call :: "string \<Rightarrow> libcall \<Rightarrow> bool" where
  "is_call name (Call f _) = (f = name)"

section \<open>The library calls of the storms recipe\<close>

text \<open>
  Modelled from the spec: pandas, PyMC, NumPy and matplotlib are not part of the
  repository. Each function or method the notebook calls is an operation that makes the
  call and returns the value stated here when the world does not make it raise. The
  pandas calls of the aggregation return, step by step, what \<open>cnt\<close> is composed of. The
  means of the traces are taken over the reals: the rounding of float64 is not modelled.
\<close>

definition mean :: "real list \<Rightarrow> real" where
  "mean xs = sum_list xs / real (length xs)"

definition pd_read_csv :: "('e, 'x) world \<Rightarrow> string \<Rightarrow> ('e, 'x storm_scheme list) run" where
  "pd_read_csv w path =
     lib w (Call ''pd.read_csv'' [AStr path, AKw ''delim_whitespace'' (ABools [False])])
       (Inr (csv_file w path))"

definition df_Basin :: "('e, 'x) world \<Rightarrow> 'x storm_scheme list \<Rightarrow> ('e, string list) run" where
  "df_Basin w df = lib w (Call ''DataFrame.__getitem__'' [AStr ''Basin'']) (Inr (map Basin df))"

definition Series_eq :: "('e, 'x) world \<Rightarrow> string list \<Rightarrow> string \<Rightarrow> ('e, bool list) run" where
  "Series_eq w col v = lib w (Call ''Series.__eq__'' [AStr v]) (Inr (map (\<lambda>x. x = v) col))"

definition df_select ::
  "('e, 'x) world \<Rightarrow> 'x storm_scheme list \<Rightarrow> bool list \<Rightarrow> ('e, 'x storm_scheme list) run" where
  "df_select w df flags =
     lib w (Call ''DataFrame.__getitem__'' [ABools flags])
       (Inr (map fst (filter snd (zip df flags))))"

definition df_groupby_Season ::
  "('e, 'x) world \<Rightarrow> 'x storm_scheme list \<Rightarrow> ('e, (int \<times> 'x storm_scheme list) list) run" where
  "df_groupby_Season w df =
     lib w (Call ''DataFrame.groupby'' [AStr ''Season'']) (Inr (groupby_Season df))"

definition groups_Serial_Num ::
  "('e, 'x) world \<Rightarrow> (int \<times> 'x storm_scheme list) list \<Rightarrow> ('e, (int \<times> string list) list) run" where
  "groups_Serial_Num w gs =
     lib w (Call ''DataFrameGroupBy.__getitem__'' [AStr ''Serial_Num''])
       (Inr (map (\<lambda>(y, g). (y, map Serial_Num g)) gs))"

definition groups_nunique ::
  "('e, 'x) world \<Rightarrow> (int \<times> string list) list \<Rightarrow> ('e, (int \<times> int) list) run" where
  "groups_nunique w gs =
     lib w (Call ''SeriesGroupBy.nunique'' []) (Inr (map (\<lambda>(y, xs). (y, nunique xs)) gs))"

definition Series_index :: "('e, 'x) world \<Rightarrow> (int \<times> int) list \<Rightarrow> ('e, int list) run" where
  "Series_index w ser = lib w (Call ''Series.index'' []) (Inr (map fst ser))"

definition Series_values :: "('e, 'x) world \<Rightarrow> (int \<times> int) list \<Rightarrow> ('e, int list) run" where
  "Series_values w ser = lib w (Call ''Series.values'' []) (Inr (map snd ser))"

definition Index_getitem :: "('e, 'x) world \<Rightarrow> int list \<Rightarrow> int \<Rightarrow> ('e, int) run" where
  "Index_getitem w xs i = lib w (Call ''Index.__getitem__'' [AInt i]) (getitem xs i)"

definition node_name :: "node \<Rightarrow> string" where
  "node_name v =
     (case v of DiscreteUniform n _ _ \<Rightarrow> n | Exponential n _ \<Rightarrow> n | Deterministic n _ \<Rightarrow> n
      | Poisson n _ _ _ \<Rightarrow> n)"

definition pymc_DiscreteUniform ::
  "('e, 'x) world \<Rightarrow> string \<Rightarrow> int \<Rightarrow> int \<Rightarrow> ('e, node) run" where
  "pymc_DiscreteUniform w name lower upper =
     lib w (Call ''pymc.DiscreteUniform''
              [AStr name, AKw ''lower'' (AInt lower), AKw ''upper'' (AInt upper)])
       (Inr (DiscreteUniform name lower upper))"

definition pymc_Exponential :: "('e, 'x) world \<Rightarrow> string \<Rightarrow> int \<Rightarrow> ('e, node) run" where
  "pymc_Exponential w name beta =
     lib w (Call ''pymc.Exponential'' [AStr name, AKw ''beta'' (AInt beta)])
       (Inr (Exponential name beta))"

definition pymc_deterministic ::
  "('e, 'x) world \<Rightarrow> string \<Rightarrow> node list \<Rightarrow> ('e, node) run" where
  "pymc_deterministic w name parents =
     lib w (Call ''pymc.deterministic''
              [AKw ''plot'' (ABools [False]), AStr name, ANodes parents])
       (Inr (Deterministic name (map node_name parents)))"

definition pymc_Poisson ::
  "('e, 'x) world \<Rightarrow> string \<Rightarrow> node \<Rightarrow> int list \<Rightarrow> bool \<Rightarrow> ('e, node) run" where
  "pymc_Poisson w name mu val obs =
     lib w (Call ''pymc.Poisson''
              [AStr name, AKw ''mu'' (ANode mu), AKw ''value'' (AInts val),
               AKw ''observed'' (ABools [obs])])
       (Inr (Poisson name (node_name mu) val obs))"

definition pymc_Model :: "('e, 'x) world \<Rightarrow> node list \<Rightarrow> ('e, node list) run" where
  "pymc_Model w nodes = lib w (Call ''pymc.Model'' [ANodes nodes]) (Inr nodes)"

definition pymc_MCMC :: "('e, 'x) world \<Rightarrow> node list \<Rightarrow> ('e, node list) run" where
  "pymc_MCMC w m = lib w (Call ''pymc.MCMC'' [ANodes m]) (Inr m)"

text \<open>
  Modelled from the spec: the sampling loop is PyMC's. \<open>sample\<close> returns nothing; the
  traces it leaves in the sampler are the states of the chain at the iterations that
  \<open>tallied\<close> keeps, and \<open>trace(name)[:]\<close> reads the trace of one variable.
\<close>

definition MCMC_sample ::
  "('e, 'x) world \<Rightarrow> node list \<Rightarrow> nat \<Rightarrow> nat \<Rightarrow> nat \<Rightarrow> ('e, (int \<times> real \<times> real) list) run" where
  "MCMC_sample w mcmc iter burn thin =
     lib w (Call ''MCMC.sample''
              [AKw ''iter'' (AInt (int iter)), AKw ''burn'' (AInt (int burn)),
               AKw ''thin'' (AInt (int thin))])
       (Inr (map (chain w) (tallied iter burn thin)))"

definition MCMC_trace_switchpoint :: "('e, 'x) world \<Rightarrow> (int \<times> real \<times> real) list \<Rightarrow> ('e, int list) run" where
  "MCMC_trace_switchpoint w db = lib w (Call ''MCMC.trace'' [AStr ''switchpoint'']) (Inr (map fst db))"

definition MCMC_trace_early_mean :: "('e, 'x) world \<Rightarrow> (int \<times> real \<times> real) list \<Rightarrow> ('e, real list) run" where
  "MCMC_trace_early_mean w db =
     lib w (Call ''MCMC.trace'' [AStr ''early_mean'']) (Inr (map (\<lambda>(s, e, l). e) db))"

definition MCMC_trace_late_mean :: "('e, 'x) world \<Rightarrow> (int \<times> real \<times> real) list \<Rightarrow> ('e, real list) run" where
  "MCMC_trace_late_mean w db =
     lib w (Call ''MCMC.trace'' [AStr ''late_mean'']) (Inr (map (\<lambda>(s, e, l). l) db))"

definition Trace_all :: "('e, 'x) world \<Rightarrow> 'a list \<Rightarrow> ('e, 'a list) run" where
  "Trace_all w xs = lib w (Call ''Trace.__getitem__'' [AStr '':'']) (Inr xs)"

definition ndarray_add :: "('e, 'x) world \<Rightarrow> int list \<Rightarrow> int \<Rightarrow> ('e, int list) run" where
  "ndarray_add w xs y = lib w (Call ''ndarray.__add__'' [AInt y]) (Inr (map (\<lambda>p. p + y) xs))"

definition ndarray_mean_int :: "('e, 'x) world \<Rightarrow> int list \<Rightarrow> ('e, real) run" where
  "ndarray_mean_int w xs = lib w (Call ''ndarray.mean'' []) (Inr (mean (map real_of_int xs)))"

definition ndarray_mean :: "('e, 'x) world \<Rightarrow> real list \<Rightarrow> ('e, real) run" where
  "ndarray_mean w xs = lib w (Call ''ndarray.mean'' []) (Inr (mean xs))"

definition int64_add :: "('e, 'x) world \<Rightarrow> int \<Rightarrow> real \<Rightarrow> ('e, real) run" where
  "int64_add w y m = lib w (Call ''int64.__add__'' [AReal m]) (Inr (real_of_int y + m))"

text \<open>The calls that draw: they return nothing the notebook uses.\<close>

definition plt_figure :: "int \<Rightarrow> int \<Rightarrow> libcall" where
  "plt_figure a b = Call ''plt.figure'' [AKw ''figsize'' (ATuple [AInt a, AInt b])]"

definition plt_subplot :: "int \<Rightarrow> libcall" where
  "plt_subplot n = Call ''plt.subplot'' [AInt n]"

definition plt_plot :: "arg list \<Rightarrow> libcall" where
  "plt_plot args = Call ''plt.plot'' args"

definition plt_hist :: "arg \<Rightarrow> int \<Rightarrow> libcall" where
  "plt_hist xs bins = Call ''plt.hist'' [xs, AInt bins]"

definition plt_xlim :: "int \<Rightarrow> int \<Rightarrow> libcall" where
  "plt_xlim a b = Call ''plt.xlim'' [AInt a, AInt b]"

definition plt_xlabel :: "string \<Rightarrow> libcall" where
  "plt_xlabel s = Call ''plt.xlabel'' [AStr s]"

definition plt_ylabel :: "string \<Rightarrow> libcall" where
  "plt_ylabel s = Call ''plt.ylabel'' [AStr s]"

definition plt_axvline :: "real \<Rightarrow> libcall" where
  "plt_axvline x = Call ''plt.axvline'' [AReal x, AKw ''color'' (AStr ''k''), AKw ''ls'' (AStr ''--'')]"

definition py_print :: "arg \<Rightarrow> libcall" where
  "py_print x = Call ''print'' [x]"

section \<open>The cells of the storms recipe\<close>

text \<open>
  The code cells of recipe 7.7 in order, each call in the order Python evaluates it. The
  import statements bind module names and are not calls into the libraries. The
  histogram of the switch point and the estimate \<open>yp\<close> turn a position of the index into a
  year by adding \<open>y0\<close>:
  \<^verbatim>\<open>
  plt.hist(mcmc.trace('switchpoint')[:] + y0, 15)
  yp = y0 + mcmc.trace('switchpoint')[:].mean()
  \<close>
\<close>

record results =
  res_years :: "int list"
  res_arr :: "int list"
  res_y0 :: int
  res_y1 :: int
  res_model :: "node list"
  res_traces :: "(int \<times> real \<times> real) list"
  res_yp :: real
  res_em :: real
  res_lm :: real

definition aggregate ::
  "('e, 'x) world \<Rightarrow> 'x storm_scheme list \<Rightarrow> ('e, int list \<times> int list \<times> int \<times> int) run" where
  "aggregate w df =
     seq (df_Basin w df) (\<lambda>basin.
     seq (Series_eq w basin '' NA'') (\<lambda>flags.
     seq (df_select w df flags) (\<lambda>na.
     seq (df_groupby_Season w na) (\<lambda>groups.
     seq (groups_Serial_Num w groups) (\<lambda>serials.
     seq (groups_nunique w serials) (\<lambda>cnt.
     seq (Series_index w cnt) (\<lambda>years.
     seq (Index_getitem w years 0) (\<lambda>y0.
     seq (Index_getitem w years (- 1)) (\<lambda>y1.
     seq (Series_values w cnt) (\<lambda>arr.
     seq (calls w
            [plt_figure 8 4, plt_plot [AInts years, AInts arr, AStr ''-ok''], plt_xlim y0 y1,
             plt_xlabel ''Year'', plt_ylabel ''Number of storms'']) (\<lambda>_.
     ret (years, arr, y0, y1))))))))))))"

definition build_model :: "('e, 'x) world \<Rightarrow> int list \<Rightarrow> ('e, node list) run" where
  "build_model w arr =
     seq (pymc_DiscreteUniform w ''switchpoint'' 0 (int (length arr))) (\<lambda>switchpoint.
     seq (pymc_Exponential w ''early_mean'' 1) (\<lambda>early_mean.
     seq (pymc_Exponential w ''late_mean'' 1) (\<lambda>late_mean.
     seq (pymc_deterministic w ''rate'' [switchpoint, early_mean, late_mean]) (\<lambda>rate.
     seq (pymc_Poisson w ''storms'' rate arr True) (\<lambda>storms.
     pymc_Model w [switchpoint, early_mean, late_mean, rate, storms])))))"

definition fit :: "('e, 'x) world \<Rightarrow> node list \<Rightarrow> ('e, (int \<times> real \<times> real) list) run" where
  "fit w m =
     seq (pymc_MCMC w m) (\<lambda>mcmc.
     MCMC_sample w mcmc 10000 1000 10)"

definition plot_chains :: "('e, 'x) world \<Rightarrow> (int \<times> real \<times> real) list \<Rightarrow> ('e, unit) run" where
  "plot_chains w db =
     seq (calls w [plt_figure 8 8, plt_subplot 311]) (\<lambda>_.
     seq (MCMC_trace_switchpoint w db) (\<lambda>t.
     seq (Trace_all w t) (\<lambda>t.
     seq (calls w [plt_plot [AInts t], plt_ylabel ''Switch point'', plt_subplot 312]) (\<lambda>_.
     seq (MCMC_trace_early_mean w db) (\<lambda>t.
     seq (Trace_all w t) (\<lambda>t.
     seq (calls w [plt_plot [AReals t], plt_ylabel ''Early mean'', plt_subplot 313]) (\<lambda>_.
     seq (MCMC_trace_late_mean w db) (\<lambda>t.
     seq (Trace_all w t) (\<lambda>t.
     calls w [plt_plot [AReals t], plt_xlabel ''Iteration'', plt_ylabel ''Late mean''])))))))))"

definition plot_posteriors ::
  "('e, 'x) world \<Rightarrow> (int \<times> real \<times> real) list \<Rightarrow> int \<Rightarrow> ('e, unit) run" where
  "plot_posteriors w db y0 =
     seq (calls w [plt_figure 14 3, plt_subplot 131]) (\<lambda>_.
     seq (MCMC_trace_switchpoint w db) (\<lambda>t.
     seq (Trace_all w t) (\<lambda>t.
     seq (ndarray_add w t y0) (\<lambda>ys.
     seq (calls w
            [plt_hist (AInts ys) 15, plt_xlabel ''Switch point'', plt_ylabel ''Distribution'',
             plt_subplot 132]) (\<lambda>_.
     seq (MCMC_trace_early_mean w db) (\<lambda>t.
     seq (Trace_all w t) (\<lambda>t.
     seq (calls w [plt_hist (AReals t) 15, plt_xlabel ''Early mean'', plt_subplot 133]) (\<lambda>_.
     seq (MCMC_trace_late_mean w db) (\<lambda>t.
     seq (Trace_all w t) (\<lambda>t.
     calls w [plt_hist (AReals t) 15, plt_xlabel ''Late mean'']))))))))))"

definition estimates ::
  "('e, 'x) world \<Rightarrow> (int \<times> real \<times> real) list \<Rightarrow> int \<Rightarrow> ('e, real \<times> real \<times> real) run" where
  "estimates w db y0 =
     seq (MCMC_trace_switchpoint w db) (\<lambda>t.
     seq (Trace_all w t) (\<lambda>t.
     seq (ndarray_mean_int w t) (\<lambda>m.
     seq (int64_add w y0 m) (\<lambda>yp.
     seq (MCMC_trace_early_mean w db) (\<lambda>t.
     seq (Trace_all w t) (\<lambda>t.
     seq (ndarray_mean w t) (\<lambda>em.
     seq (MCMC_trace_late_mean w db) (\<lambda>t.
     seq (Trace_all w t) (\<lambda>t.
     seq (ndarray_mean w t) (\<lambda>lm.
     seq (calls w [py_print (ATuple [AReal yp, AReal em, AReal lm])]) (\<lambda>_.
     ret (yp, em, lm))))))))))))"

definition plot_fit ::
  "('e, 'x) world \<Rightarrow> int list \<Rightarrow> int list \<Rightarrow> int \<Rightarrow> int \<Rightarrow> real \<Rightarrow> real \<Rightarrow> real \<Rightarrow> ('e, unit) run" where
  "plot_fit w years arr y0 y1 yp em lm =
     calls w
       [plt_figure 8 4, plt_plot [AInts years, AInts arr, AStr ''-ok''], plt_axvline yp,
        plt_plot [ATuple [AInt y0, AReal yp], ATuple [AReal em, AReal em], AStr ''-b'',
                  AKw ''lw'' (AInt 3)],
        plt_plot [ATuple [AReal yp, AInt y1], ATuple [AReal lm, AReal lm], AStr ''-r'',
                  AKw ''lw'' (AInt 3)],
        plt_xlim y0 y1, plt_xlabel ''Year'', plt_ylabel ''Number of storms'']"

definition storms_recipe :: "('e, 'x) world \<Rightarrow> ('e, results) run" where
  "storms_recipe w =
     seq (pd_read_csv w csv_path) (\<lambda>df.
     seq (aggregate w df) (\<lambda>(years, arr, y0, y1).
     seq (build_model w arr) (\<lambda>model.
     seq (fit w model) (\<lambda>db.
     seq (plot_chains w db) (\<lambda>_.
     seq (plot_posteriors w db y0) (\<lambda>_.
     seq (estimates w db y0) (\<lambda>(yp, em, lm).
     seq (plot_fit w years arr y0 y1 yp em lm) (\<lambda>_.
     ret \<lparr>res_years = years, res_arr = arr, res_y0 = y0, res_y1 = y1, res_model = model,
          res_traces = db, res_yp = yp, res_em = em, res_lm = lm\<rparr>))))))))"

section \<open>The number theory recipe, call by call\<close>










section \<open>Invariants of a run\<close>

text \<open>
  The predicates of the proofs below. \<open>quiet w\<close> is the world \<open>w\<close> with no failing call.
  A list of calls is \<open>clean\<close> when the world made none of them raise. An outcome
  \<open>propagates\<close> when a call that raised is the last call made and its exception is the
  outcome, and a library exception that ended the run was raised by the last call. A run
  is \<open>safe\<close> when it keeps this from any clean start, and \<open>sim m m'\<close> relates a run to the
  same run in the quiet world: it only adds calls, it makes a prefix of the calls of the
  quiet run, and it is the quiet run unless it ends in a library exception.
\<close>

definition quiet :: "('e, 'x) world \<Rightarrow> ('e, 'x) world" where
  "quiet w = w\<lparr>raises := \<lambda>k c. None\<rparr>"




definition sim :: "('e, 'a) run \<Rightarrow> ('e, 'a) run \<Rightarrow> bool" where
  "sim m m' =
     (\<forall>past. prefix past (fst (m past)) \<and> prefix (fst (m past)) (fst (m' past)) \<and>
        ((\<forall>e. snd (m past) \<noteq> Inl (LibraryError e)) \<longrightarrow> m' past = m past))"


section \<open>An example run\<close>

text \<open>
  A small table, a file system that holds it at the path of the notebook and a sampler
  that returns; a world in which no library call fails, whose file is that table and whose
  chain stays at switch position 1; the same world with one failing call; and a table
  with a gap between its seasons. These are the concrete inputs at which the theorems
  below are instantiated.
\<close>

definition example_table :: "storm list" where
  "example_table =
     [\<lparr>Basin = '' NA'', Season = 1951, Serial_Num = ''1951S02''\<rparr>,
      \<lparr>Basin = '' EP'', Season = 1950, Serial_Num = ''1950S09''\<rparr>,
      \<lparr>Basin = '' NA'', Season = 1950, Serial_Num = ''1950S01''\<rparr>,
      \<lparr>Basin = '' NA'', Season = 1951, Serial_Num = ''1951S02''\<rparr>,
      \<lparr>Basin = '' NA'', Season = 1951, Serial_Num = ''1951S03''\<rparr>]"

definition example_read_csv :: "string \<Rightarrow> string + storm list" where
  "example_read_csv p = (if p = csv_path then Inr example_table else Inl ''FileNotFoundError'')"

definition example_sample :: "node list \<Rightarrow> nat \<Rightarrow> nat \<Rightarrow> nat \<Rightarrow> string + string" where
  "example_sample m iter burn thin = Inr ''traces''"

definition example_world :: "(string, unit) world" where
  "example_world =
     \<lparr>raises = (\<lambda>k c. None), csv_file = (\<lambda>p. example_table), chain = (\<lambda>i. (1, 3, 5))\<rparr>"

definition failing_at :: "nat \<Rightarrow> string \<Rightarrow> (string, unit) world" where
  "failing_at n e = example_world\<lparr>raises := (\<lambda>k c. if k = n then Some e else None)\<rparr>"

definition gap_table :: "storm list" where
  "gap_table =
     [\<lparr>Basin = '' NA'', Season = 1950, Serial_Num = ''1950S01''\<rparr>,
      \<lparr>Basin = '' NA'', Season = 1960, Serial_Num = ''1960S01''\<rparr>,
      \<lparr>Basin = '' NA'', Season = 1960, Serial_Num = ''1960S02''\<rparr>]"

definition gap_world :: "(string, unit) world" where
  "gap_world = example_world\<lparr>csv_file := (\<lambda>p. gap_table)\<rparr>"

section \<open>Lemmas about slice assignment\<close>

lemma length_assign_slice: "length (assign_slice out lo hi v) = length out"
  by (simp add: assign_slice_def)

lemma nth_assign_slice:
  "i < length out \<Longrightarrow>
     assign_slice out lo hi v ! i = (if lo \<le> i \<and> i < hi then Some v else out ! i)"
  by (simp add: assign_slice_def)

lemma length_rate: "length (rate arr s e l) = length arr"
  by (simp add: rate_def Let_def np_empty_def length_assign_slice)

lemma nth_rate:
  assumes "i < length arr"
  shows "rate arr s e l ! i = Some (if i < slice_index (length arr) s then e else l)"
  using assms
  by (simp add: rate_def Let_def np_empty_def length_assign_slice nth_assign_slice)

lemma slice_index_in_range:
  "0 \<le> s \<Longrightarrow> s \<le> int n \<Longrightarrow> slice_index n s = nat s"
  by (simp add: slice_index_def)

section \<open>Lemmas about the yearly counts\<close>

lemma years_cnt:
  "map fst (cnt df) = sort (remdups (map Season (filter (\<lambda>r. Basin r = '' NA'') df)))"
  by (simp add: cnt_def groupby_Season_def comp_def)

lemma nunique_card: "nunique (map f xs) = int (card (f ` set xs))"
  by (simp add: nunique_def length_remdups_card_conv)

lemma arr_cnt:
  "map snd (cnt df) =
     map (\<lambda>y. int (card (Serial_Num ` {r \<in> set df. Basin r = '' NA'' \<and> Season r = y})))
       (map fst (cnt df))"
  by (auto simp add: cnt_def groupby_Season_def comp_def nunique_card
      intro!: arg_cong [where f = card] arg_cong [where f = "image Serial_Num"])

lemma set_years_cnt: "set (map fst (cnt df)) = Season ` {r \<in> set df. Basin r = '' NA''}"
  by (auto simp add: years_cnt)

lemma distinct_years_cnt: "distinct (map fst (cnt df))"
  by (simp add: years_cnt)

lemma sorted_years_cnt: "sorted (map fst (cnt df))"
  by (simp add: years_cnt)

lemma cnt_map_truncate: "cnt (map storm.truncate df) = cnt df"
  by (simp add: cnt_def groupby_Season_def filter_map comp_def storm.truncate_def)

lemma cnt_truncate:
  assumes "map storm.truncate df' = map storm.truncate df"
  shows "cnt df' = cnt df"
proof -
  have "cnt df' = cnt (map storm.truncate df')"
    by (simp only: cnt_map_truncate)
  also have "\<dots> = cnt (map storm.truncate df)"
    by (simp only: assms)
  also have "\<dots> = cnt df"
    by (simp only: cnt_map_truncate)
  finally show ?thesis .
qed

lemma cnt_example: "cnt example_table = [(1950, 1), (1951, 2)]"
  by (simp add: cnt_def groupby_Season_def nunique_def example_table_def)

lemma cnt_as_map:
  "cnt df =
     map (\<lambda>y. (y, int (card (Serial_Num ` {r \<in> set df. Basin r = '' NA'' \<and> Season r = y}))))
       (map fst (cnt df))"
  by (auto simp add: cnt_def groupby_Season_def comp_def nunique_card
      intro!: arg_cong [where f = card] arg_cong [where f = "image Serial_Num"])

lemma map_of_graph: "y \<in> set ks \<Longrightarrow> map_of (map (\<lambda>k. (k, f k)) ks) y = Some (f y)"
  by (simp add: map_of_map_restrict)

lemma map_of_cnt:
  assumes "y \<in> Season ` {r \<in> set df. Basin r = '' NA''}"
  shows "map_of (cnt df) y =
           Some (int (card (Serial_Num ` {r \<in> set df. Basin r = '' NA'' \<and> Season r = y})))"
proof -
  from assms have "y \<in> set (map fst (cnt df))"
    by (simp only: set_years_cnt)
  then have "map_of
      (map (\<lambda>y. (y, int (card (Serial_Num ` {r \<in> set df. Basin r = '' NA'' \<and> Season r = y}))))
        (map fst (cnt df))) y =
      Some (int (card (Serial_Num ` {r \<in> set df. Basin r = '' NA'' \<and> Season r = y})))"
    by (rule map_of_graph)
  then show ?thesis
    by (simp only: cnt_as_map [symmetric])
qed

section \<open>Lemmas about positions in an index\<close>

lemma getitem_first: "xs \<noteq> [] \<Longrightarrow> getitem xs 0 = Inr (hd xs)"
  by (cases xs) (simp_all add: getitem_def)

lemma getitem_last: "xs \<noteq> [] \<Longrightarrow> getitem xs (- 1) = Inr (last xs)"
  by (cases xs rule: rev_cases) (simp_all add: getitem_def)

lemma sorted_hd_Min: "sorted xs \<Longrightarrow> xs \<noteq> [] \<Longrightarrow> hd xs = Min (set xs)" for xs :: "int list"
  by (cases xs) (auto intro!: Min_eqI [symmetric])

lemma sorted_last_Max: "sorted xs \<Longrightarrow> xs \<noteq> [] \<Longrightarrow> last xs = Max (set xs)" for xs :: "int list"
  by (cases xs rule: rev_cases) (auto simp: sorted_append intro!: Max_eqI [symmetric])

section \<open>Lemmas about the run of the notebook\<close>

lemma notebook_reads:
  "filter is_ReadCsv (fst (notebook read_csv sample)) = [ReadCsv csv_path]"
  by (simp add: notebook_def Let_def split: sum.splits)

lemma notebook_read_failure:
  "read_csv csv_path = Inl e \<Longrightarrow>
     notebook read_csv sample = ([ReadCsv csv_path], Inl (LibraryError e))"
  by (simp add: notebook_def)

lemma notebook_only_path:
  "read_csv' csv_path = read_csv csv_path \<Longrightarrow>
     notebook read_csv' sample = notebook read_csv sample"
  by (simp add: notebook_def)

lemma notebook_empty:
  assumes "read_csv csv_path = Inr df" and "cnt df = []"
  shows "notebook read_csv sample = ([ReadCsv csv_path], Inl IndexError)"
  using assms by (simp add: notebook_def Let_def getitem_def)

lemma notebook_loaded:
  assumes "read_csv csv_path = Inr df" and "cnt df \<noteq> []"
  shows "notebook read_csv sample =
    (case sample (model (map snd (cnt df))) 10000 1000 10 of
       Inl e \<Rightarrow>
         ([ReadCsv csv_path, Plot (map fst (cnt df)) (map snd (cnt df)),
           Sample (model (map snd (cnt df))) 10000 1000 10], Inl (LibraryError e))
     | Inr t \<Rightarrow>
         ([ReadCsv csv_path, Plot (map fst (cnt df)) (map snd (cnt df)),
           Sample (model (map snd (cnt df))) 10000 1000 10,
           Plot (map fst (cnt df)) (map snd (cnt df))],
          Inr \<lparr>out_years = map fst (cnt df), out_arr = map snd (cnt df),
               out_y0 = hd (map fst (cnt df)), out_y1 = last (map fst (cnt df)),
               out_mcmc = t\<rparr>))"
proof -
  have ne: "map fst (cnt df) \<noteq> []"
    using assms(2) by simp
  show ?thesis
    by (simp add: notebook_def Let_def assms(1) getitem_first [OF ne] getitem_last [OF ne]
        split: sum.splits)
qed

lemma notebook_values:
  assumes "read_csv csv_path = Inr df" and "snd (notebook read_csv sample) = Inr out"
  shows "out_years out = map fst (cnt df) \<and> out_arr out = map snd (cnt df) \<and>
         getitem (map fst (cnt df)) 0 = Inr (out_y0 out) \<and>
         getitem (map fst (cnt df)) (- 1) = Inr (out_y1 out) \<and>
         fst (notebook read_csv sample) =
           [ReadCsv csv_path, Plot (map fst (cnt df)) (map snd (cnt df)),
            Sample (model (map snd (cnt df))) 10000 1000 10,
            Plot (map fst (cnt df)) (map snd (cnt df))]"
proof (cases "cnt df = []")
  case True
  with assms show ?thesis
    by (simp add: notebook_empty)
next
  case False
  then have ne: "map fst (cnt df) \<noteq> []"
    by simp
  from assms False show ?thesis
    by (auto simp add: notebook_loaded getitem_first [OF ne] getitem_last [OF ne]
        split: sum.splits)
qed


section \<open>Lemmas about the sampling schedule\<close>

lemma set_tallied:
  "set (tallied 10000 1000 10) = (\<lambda>k. 1000 + 10 * k) ` {0..<900}"
proof (rule set_eqI)
  fix i :: nat
  show "(i \<in> set (tallied 10000 1000 10)) = (i \<in> (\<lambda>k. 1000 + 10 * k) ` {0..<900})"
  proof
    assume "i \<in> set (tallied 10000 1000 10)"
    then have i: "i < 10000" "1000 \<le> i" "i mod 10 = 0"
      unfolding tallied_def
      by (simp_all only: set_filter set_upt mem_Collect_eq atLeastLessThan_iff)
    from i(3) obtain j where j: "i = 10 * j"
      by (auto simp: mod_eq_0_iff_dvd dvd_def)
    with i(1,2) have "i = 1000 + 10 * (j - 100)" and "j - 100 < 900"
      by simp_all
    then show "i \<in> (\<lambda>k. 1000 + 10 * k) ` {0..<900}"
      by (intro image_eqI [where x = "j - 100"]) simp_all
  next
    assume "i \<in> (\<lambda>k. 1000 + 10 * k) ` {0..<900}"
    then obtain k where "k < 900" and "i = 1000 + 10 * k"
      by auto
    then show "i \<in> set (tallied 10000 1000 10)"
      unfolding tallied_def
      by (simp only: set_filter set_upt mem_Collect_eq atLeastLessThan_iff) simp
  qed
qed

lemma length_tallied: "length (tallied 10000 1000 10) = 900"
proof -
  have "distinct (tallied 10000 1000 10)"
    unfolding tallied_def by (simp only: distinct_filter distinct_upt)
  then have "length (tallied 10000 1000 10) = card (set (tallied 10000 1000 10))"
    by (simp only: distinct_card)
  also have "\<dots> = card ((\<lambda>k :: nat. 1000 + 10 * k) ` {0..<900})"
    by (simp only: set_tallied)
  also have "\<dots> = card {0..<900 :: nat}"
    by (rule card_image) (simp add: inj_on_def)
  finally show ?thesis
    by simp
qed

section \<open>Lemmas about primes and congruences\<close>

lemma small_divisors_2011: "\<forall>e \<in> {2..44 :: int}. \<not> e dvd 2011"
  by code_simp

lemma isprime_2011: "isprime 2011"
proof -
  have "\<not> d dvd 2011" if d: "2 \<le> d" "d < 2011" for d :: int
  proof
    assume dvd: "d dvd 2011"
    then obtain q where q: "2011 = d * q"
      by (auto simp: dvd_def)
    have q2: "2 \<le> q"
    proof (rule ccontr)
      assume "\<not> 2 \<le> q"
      then have "q \<le> 1" by simp
      then have "d * q \<le> d * 1" using d(1) by (intro mult_left_mono) simp_all
      with q d(2) show False by simp
    qed
    have "d \<le> 44 \<or> q \<le> 44"
    proof (rule ccontr)
      assume "\<not> (d \<le> 44 \<or> q \<le> 44)"
      then have "45 \<le> d" "45 \<le> q" by simp_all
      then have "45 * 45 \<le> d * q" by (intro mult_mono) simp_all
      with q show False by simp
    qed
    then show False
    proof
      assume "d \<le> 44"
      with d small_divisors_2011 dvd show False by auto
    next
      assume "q \<le> 44"
      moreover have "q dvd 2011" using q by (metis dvd_triv_right)
      ultimately show False using q2 small_divisors_2011 by auto
    qed
  qed
  then show ?thesis
    by (simp add: isprime_def)
qed

lemma primepi_card: "primepi x = int (card {p. isprime p \<and> p \<le> x})"
proof -
  have "set (filter isprime [2..x]) = {p. isprime p \<and> p \<le> x}"
    by (auto simp: isprime_def)
  moreover have "distinct (filter isprime [2..x])"
    by simp
  ultimately show ?thesis
    unfolding primepi_def by (simp only: distinct_card [symmetric])
qed

lemma primepi_step:
  assumes "1 \<le> x"
  shows "primepi (x + 1) = primepi x + (if isprime (x + 1) then 1 else 0)"
proof -
  have "[2..x + 1] = [2..x] @ [x + 1]"
    using assms by (subst upto_rec2) simp_all
  then show ?thesis
    unfolding primepi_def by simp
qed

lemma crt_3_4_5:
  "(y mod 3 = 1 \<and> y mod 4 = 2 \<and> y mod 5 = 3) = (\<exists>k. y = 58 + 60 * k)" for y :: int
proof
  assume h: "y mod 3 = 1 \<and> y mod 4 = 2 \<and> y mod 5 = 3"
  define a b c where "a = y div 3" and "b = y div 4" and "c = y div 5"
  have "3 * a + y mod 3 = y" and "4 * b + y mod 4 = y" and "5 * c + y mod 5 = y"
    unfolding a_def b_def c_def by (simp_all only: mult_div_mod_eq)
  with h have a: "3 * a + 1 = y" and b: "4 * b + 2 = y" and c: "5 * c + 3 = y"
    by simp_all
  from a b have ab: "y + 2 = 12 * (a - b)"
    by (simp add: algebra_simps)
  from ab c have "y = 58 + 60 * (5 * (a - b) - 2 * (c + 1) - 1)"
    by (simp add: algebra_simps)
  then show "\<exists>k. y = 58 + 60 * k" ..
next
  assume "\<exists>k. y = 58 + 60 * k"
  then obtain k where k: "y = 58 + 60 * k" ..
  have "(58 + 3 * (20 * k)) mod 3 = (58 :: int) mod 3"
    and "(58 + 4 * (15 * k)) mod 4 = (58 :: int) mod 4"
    and "(58 + 5 * (12 * k)) mod 5 = (58 :: int) mod 5"
    by (rule mod_mult_self2)+
  then show "y mod 3 = 1 \<and> y mod 4 = 2 \<and> y mod 5 = 3"
    using k by simp
qed

section \<open>Lemmas about the invariants of a run\<close>











lemma quiet_simps:
  "raises (quiet w) k c = None" "csv_file (quiet w) = csv_file w" "chain (quiet w) = chain w"
  by (simp_all add: quiet_def)

lemma sim_ret: "sim (ret v) (ret v)"
  by (simp add: sim_def ret_def)

lemma sim_lib: "sim (lib w c r) (lib (quiet w) c r)"
  by (auto simp: sim_def lib_def quiet_simps split: option.splits)

lemma sim_seq:
  assumes "sim m m'" and "\<And>v. sim (f v) (f' v)"
  shows "sim (seq m f) (seq m' f')"
proof -
  have "prefix past (fst (seq m f past)) \<and>
        prefix (fst (seq m f past)) (fst (seq m' f' past)) \<and>
        ((\<forall>e. snd (seq m f past) \<noteq> Inl (LibraryError e)) \<longrightarrow> seq m' f' past = seq m f past)"
    for past
  proof (cases "m past")
    case (Pair p res)
    from assms(1) have m: "prefix past p" "prefix p (fst (m' past))"
      "(\<forall>e. res \<noteq> Inl (LibraryError e)) \<Longrightarrow> m' past = (p, res)"
      using Pair by (auto simp: sim_def dest: spec [where x = past])
    show ?thesis
    proof (cases res)
      case (Inl x)
      obtain p' res' where m': "m' past = (p', res')"
        by (cases "m' past")
      with m(2) have pp: "prefix p p'"
        by simp
      have "prefix p (fst (seq m' f' past))"
      proof (cases res')
        case (Inl y)
        with m' pp show ?thesis
          by (simp add: seq_def)
      next
        case (Inr v)
        from assms(2) [of v] have "prefix p' (fst (f v p'))" "prefix (fst (f v p')) (fst (f' v p'))"
          by (auto simp: sim_def)
        with pp have "prefix p (fst (f' v p'))"
          by (meson prefix_order.order_trans)
        with m' Inr show ?thesis
          by (simp add: seq_def)
      qed
      moreover have "seq m' f' past = seq m f past" if "\<forall>e. x \<noteq> LibraryError e"
      proof -
        from that Inl have "m' past = (p, res)"
          by (intro m(3)) auto
        with Pair Inl show ?thesis
          by (simp add: seq_def)
      qed
      ultimately show ?thesis
        using Pair Inl m(1) by (auto simp: seq_def)
    next
      case (Inr v)
      from m(3) Inr have m': "m' past = (p, Inr v)"
        by simp
      from assms(2) [of v] have f: "prefix p (fst (f v p))" "prefix (fst (f v p)) (fst (f' v p))"
        "(\<forall>e. snd (f v p) \<noteq> Inl (LibraryError e)) \<Longrightarrow> f' v p = f v p"
        by (auto simp: sim_def)
      from m(1) f(1) have "prefix past (fst (f v p))"
        by (meson prefix_order.order_trans)
      with Pair Inr m' f show ?thesis
        by (simp add: seq_def)
    qed
  qed
  then show ?thesis
    by (simp add: sim_def)
qed

lemma sim_calls: "sim (calls w cs) (calls (quiet w) cs)"
  by (induction cs) (auto intro: sim_ret sim_seq sim_lib)

lemma sim_prod:
  assumes "\<And>a b. sim (g a b) (g' a b)"
  shows "sim (case p of (a, b) \<Rightarrow> g a b) (case p of (a, b) \<Rightarrow> g' a b)"
  using assms by (cases p) simp





section \<open>Lemmas about the storms recipe\<close>

lemmas ops =
  pd_read_csv_def df_Basin_def Series_eq_def df_select_def df_groupby_Season_def
  groups_Serial_Num_def groups_nunique_def Series_index_def Series_values_def
  Index_getitem_def pymc_DiscreteUniform_def pymc_Exponential_def pymc_deterministic_def
  pymc_Poisson_def pymc_Model_def pymc_MCMC_def MCMC_sample_def MCMC_trace_switchpoint_def
  MCMC_trace_early_mean_def MCMC_trace_late_mean_def Trace_all_def ndarray_add_def
  ndarray_mean_int_def ndarray_mean_def int64_add_def

lemmas cells =
  aggregate_def build_model_def fit_def plot_chains_def plot_posteriors_def estimates_def
  plot_fit_def

lemmas plt_defs =
  plt_figure_def plt_subplot_def plt_plot_def plt_hist_def plt_xlim_def plt_xlabel_def
  plt_ylabel_def plt_axvline_def py_print_def



lemma sim_storms_recipe: "sim (storms_recipe w) (storms_recipe (quiet w))"
  unfolding storms_recipe_def cells ops quiet_simps
  by (intro sim_seq sim_prod sim_ret sim_calls sim_lib)


lemma select_filter:
  "map fst (filter snd (zip df (map (\<lambda>x. x = v) (map Basin df)))) = filter (\<lambda>r. Basin r = v) df"
  by (induction df) simp_all

lemma pipeline_cnt:
  "map (\<lambda>(y, xs). (y, nunique xs))
     (map (\<lambda>(y, g). (y, map Serial_Num g)) (groupby_Season (filter (\<lambda>r. Basin r = '' NA'') df))) =
   cnt df"
  by (simp add: cnt_def groupby_Season_def comp_def)

lemma lib_quiet: "lib (quiet w) c r past = (past @ [c], r)"
  by (simp add: lib_def quiet_simps)

lemma aggregate_quiet:
  assumes "cnt df \<noteq> []"
  shows "aggregate (quiet w) df past =
     (past @
      [Call ''DataFrame.__getitem__'' [AStr ''Basin''], Call ''Series.__eq__'' [AStr '' NA''],
       Call ''DataFrame.__getitem__'' [ABools (map (\<lambda>x. x = '' NA'') (map Basin df))],
       Call ''DataFrame.groupby'' [AStr ''Season''],
       Call ''DataFrameGroupBy.__getitem__'' [AStr ''Serial_Num''],
       Call ''SeriesGroupBy.nunique'' [], Call ''Series.index'' [],
       Call ''Index.__getitem__'' [AInt 0], Call ''Index.__getitem__'' [AInt (- 1)],
       Call ''Series.values'' [], plt_figure 8 4,
       plt_plot [AInts (map fst (cnt df)), AInts (map snd (cnt df)), AStr ''-ok''],
       plt_xlim (hd (map fst (cnt df))) (last (map fst (cnt df))), plt_xlabel ''Year'',
       plt_ylabel ''Number of storms''],
      Inr (map fst (cnt df), map snd (cnt df), hd (map fst (cnt df)), last (map fst (cnt df))))"
proof -
  have ne: "map fst (cnt df) \<noteq> []"
    using assms by simp
  show ?thesis
    by (simp only: aggregate_def ops seq_def lib_quiet ret_def calls.simps prod.case sum.case
        select_filter pipeline_cnt getitem_first [OF ne] getitem_last [OF ne]
        append_assoc append.simps)
qed

lemma aggregate_quiet_empty:
  assumes "cnt df = []"
  shows "aggregate (quiet w) df past =
     (past @
      [Call ''DataFrame.__getitem__'' [AStr ''Basin''], Call ''Series.__eq__'' [AStr '' NA''],
       Call ''DataFrame.__getitem__'' [ABools (map (\<lambda>x. x = '' NA'') (map Basin df))],
       Call ''DataFrame.groupby'' [AStr ''Season''],
       Call ''DataFrameGroupBy.__getitem__'' [AStr ''Serial_Num''],
       Call ''SeriesGroupBy.nunique'' [], Call ''Series.index'' [],
       Call ''Index.__getitem__'' [AInt 0]],
      Inl IndexError)"
proof -
  have empty: "getitem (map fst (cnt df)) 0 = (Inl IndexError :: 'c exn + int)"
    using assms by (simp add: getitem_def)
  show ?thesis
    by (simp only: aggregate_def ops seq_def lib_quiet ret_def calls.simps prod.case sum.case
        select_filter pipeline_cnt empty append_assoc append.simps)
qed

lemmas eval_simps =
  storms_recipe_def pd_read_csv_def build_model_def fit_def plot_chains_def plot_posteriors_def
  estimates_def plot_fit_def pymc_DiscreteUniform_def pymc_Exponential_def
  pymc_deterministic_def pymc_Poisson_def pymc_Model_def pymc_MCMC_def MCMC_sample_def
  MCMC_trace_switchpoint_def MCMC_trace_early_mean_def MCMC_trace_late_mean_def Trace_all_def
  ndarray_add_def ndarray_mean_int_def ndarray_mean_def int64_add_def
  seq_def lib_quiet ret_def quiet_simps calls.simps prod.case sum.case append_assoc
  append.simps

lemma node_names:
  "node_name (DiscreteUniform n a b) = n" "node_name (Exponential n c) = n"
  "node_name (Deterministic n ps) = n" "node_name (Poisson n m v ob) = n"
  by (simp_all add: node_name_def)

lemma model_eq:
  "[DiscreteUniform ''switchpoint'' 0 (int (length arr)), Exponential ''early_mean'' 1,
    Exponential ''late_mean'' 1,
    Deterministic ''rate'' [''switchpoint'', ''early_mean'', ''late_mean''],
    Poisson ''storms'' ''rate'' arr True] = model arr"
  by (simp add: model_def switchpoint_def early_mean_def late_mean_def rate_node_def storms_def)

lemma quiet_run:
  fixes w :: "('e, 'x) world"
  assumes "cnt (csv_file w csv_path) \<noteq> []"
  defines "df \<equiv> csv_file w csv_path"
  defines "years \<equiv> map fst (cnt df)" and "arr \<equiv> map snd (cnt df)"
  defines "db \<equiv> map (chain w) (tallied 10000 1000 10)"
  defines "y0 \<equiv> hd years" and "y1 \<equiv> last years"
  defines "yp \<equiv> real_of_int y0 + mean (map real_of_int (map fst db))"
    and "em \<equiv> mean (map (\<lambda>(s, e, l). e) db)" and "lm \<equiv> mean (map (\<lambda>(s, e, l). l) db)"
  shows "storms_recipe (quiet w) [] =
    ([Call ''pd.read_csv'' [AStr csv_path, AKw ''delim_whitespace'' (ABools [False])],
      Call ''DataFrame.__getitem__'' [AStr ''Basin''], Call ''Series.__eq__'' [AStr '' NA''],
      Call ''DataFrame.__getitem__'' [ABools (map (\<lambda>x. x = '' NA'') (map Basin df))],
      Call ''DataFrame.groupby'' [AStr ''Season''],
      Call ''DataFrameGroupBy.__getitem__'' [AStr ''Serial_Num''],
      Call ''SeriesGroupBy.nunique'' [], Call ''Series.index'' [],
      Call ''Index.__getitem__'' [AInt 0], Call ''Index.__getitem__'' [AInt (- 1)],
      Call ''Series.values'' [], plt_figure 8 4,
      plt_plot [AInts years, AInts arr, AStr ''-ok''], plt_xlim y0 y1, plt_xlabel ''Year'',
      plt_ylabel ''Number of storms'',
      Call ''pymc.DiscreteUniform''
        [AStr ''switchpoint'', AKw ''lower'' (AInt 0), AKw ''upper'' (AInt (int (length arr)))],
      Call ''pymc.Exponential'' [AStr ''early_mean'', AKw ''beta'' (AInt 1)],
      Call ''pymc.Exponential'' [AStr ''late_mean'', AKw ''beta'' (AInt 1)],
      Call ''pymc.deterministic''
        [AKw ''plot'' (ABools [False]), AStr ''rate'',
         ANodes [DiscreteUniform ''switchpoint'' 0 (int (length arr)),
                 Exponential ''early_mean'' 1, Exponential ''late_mean'' 1]],
      Call ''pymc.Poisson''
        [AStr ''storms'',
         AKw ''mu'' (ANode (Deterministic ''rate'' [''switchpoint'', ''early_mean'', ''late_mean''])),
         AKw ''value'' (AInts arr), AKw ''observed'' (ABools [True])],
      Call ''pymc.Model'' [ANodes (model arr)], Call ''pymc.MCMC'' [ANodes (model arr)],
      Call ''MCMC.sample''
        [AKw ''iter'' (AInt 10000), AKw ''burn'' (AInt 1000), AKw ''thin'' (AInt 10)],
      plt_figure 8 8, plt_subplot 311, Call ''MCMC.trace'' [AStr ''switchpoint''],
      Call ''Trace.__getitem__'' [AStr '':''], plt_plot [AInts (map fst db)],
      plt_ylabel ''Switch point'', plt_subplot 312, Call ''MCMC.trace'' [AStr ''early_mean''],
      Call ''Trace.__getitem__'' [AStr '':''], plt_plot [AReals (map (\<lambda>(s, e, l). e) db)],
      plt_ylabel ''Early mean'', plt_subplot 313, Call ''MCMC.trace'' [AStr ''late_mean''],
      Call ''Trace.__getitem__'' [AStr '':''], plt_plot [AReals (map (\<lambda>(s, e, l). l) db)],
      plt_xlabel ''Iteration'', plt_ylabel ''Late mean'',
      plt_figure 14 3, plt_subplot 131, Call ''MCMC.trace'' [AStr ''switchpoint''],
      Call ''Trace.__getitem__'' [AStr '':''], Call ''ndarray.__add__'' [AInt y0],
      plt_hist (AInts (map (\<lambda>p. p + y0) (map fst db))) 15, plt_xlabel ''Switch point'',
      plt_ylabel ''Distribution'', plt_subplot 132, Call ''MCMC.trace'' [AStr ''early_mean''],
      Call ''Trace.__getitem__'' [AStr '':''], plt_hist (AReals (map (\<lambda>(s, e, l). e) db)) 15,
      plt_xlabel ''Early mean'', plt_subplot 133, Call ''MCMC.trace'' [AStr ''late_mean''],
      Call ''Trace.__getitem__'' [AStr '':''], plt_hist (AReals (map (\<lambda>(s, e, l). l) db)) 15,
      plt_xlabel ''Late mean'',
      Call ''MCMC.trace'' [AStr ''switchpoint''], Call ''Trace.__getitem__'' [AStr '':''],
      Call ''ndarray.mean'' [], Call ''int64.__add__'' [AReal (mean (map real_of_int (map fst db)))],
      Call ''MCMC.trace'' [AStr ''early_mean''], Call ''Trace.__getitem__'' [AStr '':''],
      Call ''ndarray.mean'' [], Call ''MCMC.trace'' [AStr ''late_mean''],
      Call ''Trace.__getitem__'' [AStr '':''], Call ''ndarray.mean'' [],
      py_print (ATuple [AReal yp, AReal em, AReal lm]),
      plt_figure 8 4, plt_plot [AInts years, AInts arr, AStr ''-ok''], plt_axvline yp,
      plt_plot [ATuple [AInt y0, AReal yp], ATuple [AReal em, AReal em], AStr ''-b'',
                AKw ''lw'' (AInt 3)],
      plt_plot [ATuple [AReal yp, AInt y1], ATuple [AReal lm, AReal lm], AStr ''-r'',
                AKw ''lw'' (AInt 3)],
      plt_xlim y0 y1, plt_xlabel ''Year'', plt_ylabel ''Number of storms''],
     Inr \<lparr>res_years = years, res_arr = arr, res_y0 = y0, res_y1 = y1, res_model = model arr,
          res_traces = db, res_yp = yp, res_em = em, res_lm = lm\<rparr>)"
  unfolding years_def arr_def db_def y0_def y1_def yp_def em_def lm_def df_def
  by (simp only: eval_simps aggregate_quiet [OF assms(1)] node_names model_eq list.map of_nat_numeral)

lemma quiet_run_empty:
  fixes w :: "('e, 'x) world"
  assumes "cnt (csv_file w csv_path) = []"
  shows "storms_recipe (quiet w) [] =
    ([Call ''pd.read_csv'' [AStr csv_path, AKw ''delim_whitespace'' (ABools [False])],
      Call ''DataFrame.__getitem__'' [AStr ''Basin''], Call ''Series.__eq__'' [AStr '' NA''],
      Call ''DataFrame.__getitem__''
        [ABools (map (\<lambda>x. x = '' NA'') (map Basin (csv_file w csv_path)))],
      Call ''DataFrame.groupby'' [AStr ''Season''],
      Call ''DataFrameGroupBy.__getitem__'' [AStr ''Serial_Num''],
      Call ''SeriesGroupBy.nunique'' [], Call ''Series.index'' [],
      Call ''Index.__getitem__'' [AInt 0]],
     Inl IndexError)"
  by (simp only: eval_simps aggregate_quiet_empty [OF assms])

lemma completed_is_quiet:
  assumes "snd (storms_recipe w []) = Inr out"
  shows "storms_recipe w [] = storms_recipe (quiet w) []"
proof -
  from sim_storms_recipe [of w]
  have "(\<forall>e. snd (storms_recipe w []) \<noteq> Inl (LibraryError e)) \<longrightarrow>
      storms_recipe (quiet w) [] = storms_recipe w []"
    unfolding sim_def by blast
  with assms show ?thesis
    by simp
qed

lemma completed_nonempty:
  assumes "snd (storms_recipe w []) = Inr out"
  shows "cnt (csv_file w csv_path) \<noteq> []"
proof
  assume "cnt (csv_file w csv_path) = []"
  from quiet_run_empty [OF this] completed_is_quiet [OF assms] assms show False
    by simp
qed

lemma log_prefix: "prefix (fst (storms_recipe w [])) (fst (storms_recipe (quiet w) []))"
  using sim_storms_recipe [of w] by (simp add: sim_def)

lemma quiet_sample_calls:
  "filter (is_call ''MCMC.sample'') (fst (storms_recipe (quiet w) [])) =
     (if cnt (csv_file w csv_path) = [] then []
      else [Call ''MCMC.sample''
              [AKw ''iter'' (AInt 10000), AKw ''burn'' (AInt 1000), AKw ''thin'' (AInt 10)]])"
proof (cases "cnt (csv_file w csv_path) = []")
  case True
  show ?thesis
    unfolding quiet_run_empty [OF True] fst_conv using True by simp
next
  case False
  show ?thesis
    unfolding quiet_run [OF False] fst_conv using False by (simp add: plt_defs)
qed

lemma completed_values:
  assumes "snd (storms_recipe w []) = Inr out"
  shows "res_years out = map fst (cnt (csv_file w csv_path))"
    and "res_arr out = map snd (cnt (csv_file w csv_path))"
    and "res_y0 out = hd (map fst (cnt (csv_file w csv_path)))"
    and "res_y1 out = last (map fst (cnt (csv_file w csv_path)))"
    and "res_model out = model (map snd (cnt (csv_file w csv_path)))"
    and "res_traces out = map (chain w) (tallied 10000 1000 10)"
    and "res_yp out =
      real_of_int (hd (map fst (cnt (csv_file w csv_path)))) +
      mean (map real_of_int (map fst (map (chain w) (tallied 10000 1000 10))))"
proof -
  from assms have "snd (storms_recipe (quiet w) []) = Inr out"
    by (simp only: completed_is_quiet [OF assms])
  then have "Inr out = snd (storms_recipe (quiet w) [])"
    by simp
  also note quiet_run [OF completed_nonempty [OF assms]]
  finally have out: "out = \<lparr>res_years = map fst (cnt (csv_file w csv_path)),
      res_arr = map snd (cnt (csv_file w csv_path)),
      res_y0 = hd (map fst (cnt (csv_file w csv_path))),
      res_y1 = last (map fst (cnt (csv_file w csv_path))),
      res_model = model (map snd (cnt (csv_file w csv_path))),
      res_traces = map (chain w) (tallied 10000 1000 10),
      res_yp = real_of_int (hd (map fst (cnt (csv_file w csv_path)))) +
        mean (map real_of_int (map fst (map (chain w) (tallied 10000 1000 10)))),
      res_em = mean (map (\<lambda>(s, e, l). e) (map (chain w) (tallied 10000 1000 10))),
      res_lm = mean (map (\<lambda>(s, e, l). l) (map (chain w) (tallied 10000 1000 10)))\<rparr>"
    by (simp only: snd_conv sum.inject)
  show "res_years out = map fst (cnt (csv_file w csv_path))"
    and "res_arr out = map snd (cnt (csv_file w csv_path))"
    and "res_y0 out = hd (map fst (cnt (csv_file w csv_path)))"
    and "res_y1 out = last (map fst (cnt (csv_file w csv_path)))"
    and "res_model out = model (map snd (cnt (csv_file w csv_path)))"
    and "res_traces out = map (chain w) (tallied 10000 1000 10)"
    and "res_yp out =
      real_of_int (hd (map fst (cnt (csv_file w csv_path)))) +
      mean (map real_of_int (map fst (map (chain w) (tallied 10000 1000 10))))"
    by (simp_all only: out results.simps)
qed

lemma quiet_plots:
  fixes w :: "('e, 'x) world"
  assumes "cnt (csv_file w csv_path) \<noteq> []"
  defines "years \<equiv> map fst (cnt (csv_file w csv_path))"
    and "arr \<equiv> map snd (cnt (csv_file w csv_path))"
    and "db \<equiv> map (chain w) (tallied 10000 1000 10)"
  defines "yp \<equiv> real_of_int (hd years) + mean (map real_of_int (map fst db))"
    and "em \<equiv> mean (map (\<lambda>(s, e, l). e) db)" and "lm \<equiv> mean (map (\<lambda>(s, e, l). l) db)"
  shows "filter (is_call ''pymc.Poisson'') (fst (storms_recipe (quiet w) [])) =
           [Call ''pymc.Poisson''
              [AStr ''storms'', AKw ''mu'' (ANode rate_node), AKw ''value'' (AInts arr),
               AKw ''observed'' (ABools [True])]]"
    and "filter (is_call ''plt.plot'') (fst (storms_recipe (quiet w) [])) =
           [plt_plot [AInts years, AInts arr, AStr ''-ok''],
            plt_plot [AInts (map fst db)],
            plt_plot [AReals (map (\<lambda>(s, e, l). e) db)],
            plt_plot [AReals (map (\<lambda>(s, e, l). l) db)],
            plt_plot [AInts years, AInts arr, AStr ''-ok''],
            plt_plot [ATuple [AInt (hd years), AReal yp], ATuple [AReal em, AReal em],
                      AStr ''-b'', AKw ''lw'' (AInt 3)],
            plt_plot [ATuple [AReal yp, AInt (last years)], ATuple [AReal lm, AReal lm],
                      AStr ''-r'', AKw ''lw'' (AInt 3)]]"
    and "filter (is_call ''plt.hist'') (fst (storms_recipe (quiet w) [])) =
           [plt_hist (AInts (map (\<lambda>p. p + hd years) (map fst db))) 15,
            plt_hist (AReals (map (\<lambda>(s, e, l). e) db)) 15,
            plt_hist (AReals (map (\<lambda>(s, e, l). l) db)) 15]"
  unfolding quiet_run [OF assms(1)] fst_conv years_def arr_def db_def yp_def em_def lm_def
  by (simp_all add: plt_defs rate_node_def)

lemma completed_plots:
  fixes w :: "('e, 'x) world"
  assumes run: "snd (storms_recipe w []) = Inr out"
  defines "years \<equiv> map fst (cnt (csv_file w csv_path))"
    and "arr \<equiv> map snd (cnt (csv_file w csv_path))"
  shows "filter (is_call ''pymc.Poisson'') (fst (storms_recipe w [])) =
           [Call ''pymc.Poisson''
              [AStr ''storms'', AKw ''mu'' (ANode rate_node), AKw ''value'' (AInts arr),
               AKw ''observed'' (ABools [True])]]"
    and "take 5 (filter (is_call ''plt.plot'') (fst (storms_recipe w []))) =
           [plt_plot [AInts years, AInts arr, AStr ''-ok''],
            plt_plot [AInts (map fst (res_traces out))],
            plt_plot [AReals (map (\<lambda>(s, e, l). e) (res_traces out))],
            plt_plot [AReals (map (\<lambda>(s, e, l). l) (res_traces out))],
            plt_plot [AInts years, AInts arr, AStr ''-ok'']]"
    and "filter (is_call ''plt.hist'') (fst (storms_recipe w [])) =
           [plt_hist (AInts (map (\<lambda>p. p + hd years) (map fst (res_traces out)))) 15,
            plt_hist (AReals (map (\<lambda>(s, e, l). e) (res_traces out))) 15,
            plt_hist (AReals (map (\<lambda>(s, e, l). l) (res_traces out))) 15]"
  unfolding completed_is_quiet [OF run] quiet_plots [OF completed_nonempty [OF run]]
    completed_values(6) [OF run] years_def arr_def
  by simp_all

lemma consecutive_nth:
  fixes xs :: "int list"
  assumes "sorted xs" and "distinct xs" and "set xs = {a..b}" and "p < length xs"
  shows "xs ! p = a + int p"
proof -
  have "xs = [a..b]"
    using assms(1,2) by (rule sorted_distinct_set_unique) (simp_all add: assms(3))
  moreover from this assms(4) have "a + int p \<le> b"
    by simp
  ultimately show ?thesis
    by (simp only: nth_upto)
qed

lemma notebook_abstracts_recipe:
  fixes w :: "('e, 'x) world"
  assumes "snd (storms_recipe w []) = Inr out"
  defines "read_csv \<equiv> \<lambda>p. (Inr (csv_file w p) :: 'e + 'x storm_scheme list)"
    and "sample \<equiv> \<lambda>(m :: node list) iter burn thin.
      (Inr (map (chain w) (tallied iter burn thin)) :: 'e + (int \<times> real \<times> real) list)"
  shows "snd (notebook read_csv sample) =
     Inr \<lparr>out_years = res_years out, out_arr = res_arr out, out_y0 = res_y0 out,
          out_y1 = res_y1 out, out_mcmc = res_traces out\<rparr>"
proof -
  have "read_csv csv_path = Inr (csv_file w csv_path)"
    by (simp add: read_csv_def)
  then have "notebook read_csv sample =
    (case sample (model (map snd (cnt (csv_file w csv_path)))) 10000 1000 10 of
       Inl e \<Rightarrow>
         ([ReadCsv csv_path,
           Plot (map fst (cnt (csv_file w csv_path))) (map snd (cnt (csv_file w csv_path))),
           Sample (model (map snd (cnt (csv_file w csv_path)))) 10000 1000 10],
          Inl (LibraryError e))
     | Inr t \<Rightarrow>
         ([ReadCsv csv_path,
           Plot (map fst (cnt (csv_file w csv_path))) (map snd (cnt (csv_file w csv_path))),
           Sample (model (map snd (cnt (csv_file w csv_path)))) 10000 1000 10,
           Plot (map fst (cnt (csv_file w csv_path))) (map snd (cnt (csv_file w csv_path)))],
          Inr \<lparr>out_years = map fst (cnt (csv_file w csv_path)),
               out_arr = map snd (cnt (csv_file w csv_path)),
               out_y0 = hd (map fst (cnt (csv_file w csv_path))),
               out_y1 = last (map fst (cnt (csv_file w csv_path))), out_mcmc = t\<rparr>))"
    using completed_nonempty [OF assms(1)] by (rule notebook_loaded)
  then show ?thesis
    by (simp add: sample_def completed_values [OF assms(1)])
qed

section \<open>Lemmas about the number theory recipe\<close>








section \<open>Lemmas about the example worlds\<close>

lemma example_world_simps:
  "quiet example_world = example_world"
  "quiet (failing_at n e) = example_world"
  "csv_file example_world p = example_table"
  "chain example_world = (\<lambda>i. (1, 3, 5))"
  "raises example_world k c = None"
  "raises (failing_at n e) k c = (if k = n then Some e else None)"
  "csv_file (failing_at n e) p = example_table"
  by (simp_all add: quiet_def example_world_def failing_at_def)

lemma example_cnt: "cnt (csv_file example_world csv_path) \<noteq> []"
  by (simp add: example_world_simps cnt_example)



lemma example_seasons:
  shows "Season ` {r \<in> set (csv_file example_world csv_path). Basin r = '' NA''} = {1950, 1951}"
    and "{1950..1951 :: int} = {1950, 1951}"
proof -
  show "Season ` {r \<in> set (csv_file example_world csv_path). Basin r = '' NA''} = {1950, 1951}"
    using set_years_cnt [of example_table] by (simp add: cnt_example example_world_simps)
  show "{1950..1951 :: int} = {1950, 1951}"
    by auto
qed

lemma gap_world_simps:
  "quiet gap_world = gap_world"
  "csv_file gap_world p = gap_table"
  "chain gap_world = (\<lambda>i. (1, 3, 5))"
  by (simp_all add: quiet_def gap_world_def example_world_def)

lemma cnt_gap: "cnt gap_table = [(1950, 1), (1960, 2)]"
  by (simp add: cnt_def groupby_Season_def nunique_def gap_table_def)

lemma constant_chain: "map (\<lambda>i. c) (tallied 10000 1000 10) = replicate 900 c"
  by (simp only: map_replicate_const length_tallied)

lemma mean_replicate: "0 < n \<Longrightarrow> mean (replicate n c) = c"
  by (simp add: mean_def sum_list_replicate)

lemma gap_run:
  "snd (storms_recipe gap_world []) =
     Inr \<lparr>res_years = [1950, 1960], res_arr = [1, 2], res_y0 = 1950, res_y1 = 1960,
          res_model = model [1, 2], res_traces = replicate 900 (1, 3, 5), res_yp = 1951,
          res_em = 3, res_lm = 5\<rparr>"
proof -
  have ne: "cnt (csv_file gap_world csv_path) \<noteq> []"
    by (simp add: gap_world_simps cnt_gap)
  from quiet_run [OF ne] show ?thesis
    by (simp only: gap_world_simps snd_conv)
      (simp add: cnt_gap constant_chain mean_replicate)
qed

section \<open>Claims about the rate function\<close>

text \<open>
  C1. For every switch point \<open>s\<close> with \<open>0 \<le> s \<le> len(arr)\<close> and all values \<open>e\<close>
  and \<open>l\<close>, \<open>rate\<close> returns an array as long as \<open>arr\<close> that is split in two
  contiguous segments at \<open>s\<close>: every entry before index \<open>s\<close> is \<open>e\<close>, every entry from
  index \<open>s\<close> on is \<open>l\<close>.
\<close>

theorem rate_two_segments:
  assumes "0 \<le> s" and "s \<le> int (length arr)"
  shows "length (rate arr s e l) = length arr \<and>
         (\<forall>i < length arr. rate arr s e l ! i = Some (if int i < s then e else l))"
proof -
  have idx: "slice_index (length arr) s = nat s"
    using assms by (rule slice_index_in_range)
  have "rate arr s e l ! i = Some (if int i < s then e else l)" if "i < length arr" for i
  proof -
    have "(i < nat s) = (int i < s)"
      using assms(1) by linarith
    then show ?thesis
      using that by (simp add: nth_rate idx)
  qed
  then show ?thesis
    by (simp add: length_rate)
qed

theorem rate_two_segments_witness:
  "length (rate [3, 1, 4] 1 (2 :: real) 7) = 3 \<and>
   rate [3, 1, 4] 1 (2 :: real) 7 ! 0 = Some 2 \<and>
   rate [3, 1, 4] 1 (2 :: real) 7 ! 1 = Some 7 \<and>
   rate [3, 1, 4] 1 (2 :: real) 7 ! 2 = Some 7"
proof -
  have "length (rate [3, 1, 4] 1 (2 :: real) 7) = length [3, 1, 4 :: int] \<and>
        (\<forall>i < length [3, 1, 4 :: int].
            rate [3, 1, 4] 1 (2 :: real) 7 ! i = Some (if int i < 1 then 2 else 7))"
    by (rule rate_two_segments) simp_all
  then have len: "length (rate [3, 1, 4] 1 (2 :: real) 7) = 3"
    and nth: "\<And>i. i < 3 \<Longrightarrow> rate [3, 1, 4] 1 (2 :: real) 7 ! i = Some (if int i < 1 then 2 else 7)"
    by simp_all
  from nth [of 0] nth [of 1] nth [of 2] len show ?thesis
    by simp
qed

text \<open>
  C9. For every \<open>s\<close> in the support \<open>{0, \<dots>, len(arr)}\<close> of the switch point, whose
  upper bound is included, the bound of the two slice assignments is in range (it is
  neither wrapped nor clamped) and the two assignments write every cell of the array
  that \<open>np.empty\<close> allocated, so \<open>rate\<close> returns no uninitialised cell. At
  \<open>s = len(arr)\<close> the whole array is \<open>early_mean\<close>, at \<open>s = 0\<close> it is \<open>late_mean\<close>.
\<close>

theorem rate_fully_initialised:
  assumes "s \<in> support (switchpoint arr)"
  shows "int (slice_index (length arr) s) = s \<and>
         slice_index (length arr) s \<le> length arr \<and>
         length (rate arr s e l) = length arr \<and>
         None \<notin> set (rate arr s e l) \<and>
         (s = int (length arr) \<longrightarrow> rate arr s e l = replicate (length arr) (Some e)) \<and>
         (s = 0 \<longrightarrow> rate arr s e l = replicate (length arr) (Some l))"
proof -
  from assms have s: "0 \<le> s" "s \<le> int (length arr)"
    by (simp_all add: switchpoint_def)
  then have idx: "slice_index (length arr) s = nat s"
    by (rule slice_index_in_range)
  have bound: "int (slice_index (length arr) s) = s \<and> slice_index (length arr) s \<le> length arr"
    using s by (simp add: idx)
  have init: "None \<notin> set (rate arr s e l)"
    by (auto simp: in_set_conv_nth length_rate nth_rate)
  have early: "rate arr s e l = replicate (length arr) (Some e)" if "s = int (length arr)"
  proof -
    from idx that have "slice_index (length arr) s = length arr"
      by simp
    then show ?thesis
      by (simp add: list_eq_iff_nth_eq length_rate nth_rate)
  qed
  have late: "rate arr s e l = replicate (length arr) (Some l)" if "s = 0"
  proof -
    from idx that have "slice_index (length arr) s = 0"
      by simp
    then show ?thesis
      by (simp add: list_eq_iff_nth_eq length_rate nth_rate)
  qed
  from bound init early late show ?thesis
    by (simp add: length_rate)
qed

theorem rate_fully_initialised_witness:
  "rate [3, 1, 4] 3 (2 :: real) 7 = [Some 2, Some 2, Some 2] \<and>
   rate [3, 1, 4] 0 (2 :: real) 7 = [Some 7, Some 7, Some 7] \<and>
   None \<notin> set (rate [3, 1, 4] 1 (2 :: real) 7)"
proof -
  have "3 \<in> support (switchpoint [3, 1, 4])" and "0 \<in> support (switchpoint [3, 1, 4])"
    and "1 \<in> support (switchpoint [3, 1, 4])"
    by (simp_all add: switchpoint_def)
  from this(1) [THEN rate_fully_initialised, of "2 :: real" 7]
    this(2) [THEN rate_fully_initialised, of "2 :: real" 7]
    this(3) [THEN rate_fully_initialised, of "2 :: real" 7]
  show ?thesis
    by (simp add: numeral_3_eq_3)
qed

section \<open>Claims about the model and the sampler\<close>



text \<open>
  C4. A run that completes has called the sampler exactly once, with \<open>iter = 10000\<close>,
  \<open>burn = 1000\<close> and \<open>thin = 10\<close>, and the traces it holds are the states of the chain at
  the kept iterations: the trace of each of the three variables has
  \<open>(10000 - 1000) / 10 = 900\<close> samples. No run calls the sampler more than once or with
  another schedule.
\<close>

theorem sampler_called_once:
  "(snd (storms_recipe w []) = Inr out \<longrightarrow>
      filter (is_call ''MCMC.sample'') (fst (storms_recipe w [])) =
        [Call ''MCMC.sample''
           [AKw ''iter'' (AInt 10000), AKw ''burn'' (AInt 1000), AKw ''thin'' (AInt 10)]] \<and>
      res_traces out = map (chain w) (tallied 10000 1000 10) \<and>
      length (map fst (res_traces out)) = 900 \<and>
      length (map (\<lambda>(s, e, l). e) (res_traces out)) = 900 \<and>
      length (map (\<lambda>(s, e, l). l) (res_traces out)) = 900 \<and>
      length (res_traces out) = (10000 - 1000) div 10) \<and>
   length (filter (is_call ''MCMC.sample'') (fst (storms_recipe w []))) \<le> 1 \<and>
   (\<forall>c \<in> set (fst (storms_recipe w [])).
      is_call ''MCMC.sample'' c \<longrightarrow>
      c = Call ''MCMC.sample''
            [AKw ''iter'' (AInt 10000), AKw ''burn'' (AInt 1000), AKw ''thin'' (AInt 10)])"
proof -
  let ?c = "Call ''MCMC.sample''
      [AKw ''iter'' (AInt 10000), AKw ''burn'' (AInt 1000), AKw ''thin'' (AInt 10)]"
  let ?P = "is_call ''MCMC.sample''"
  have pre: "prefix (filter ?P (fst (storms_recipe w []))) (filter ?P (fst (storms_recipe (quiet w) [])))"
    using log_prefix by (rule filter_mono_prefix)
  then have cases: "filter ?P (fst (storms_recipe w [])) = [] \<or> filter ?P (fst (storms_recipe w [])) = [?c]"
    unfolding quiet_sample_calls by (auto simp: prefix_Cons split: if_splits)
  then have once: "length (filter ?P (fst (storms_recipe w []))) \<le> 1"
    by auto
  have only: "c = ?c" if "c \<in> set (fst (storms_recipe w []))" and "?P c" for c
  proof -
    from that have mem: "c \<in> set (filter ?P (fst (storms_recipe w [])))"
      by simp
    from cases show ?thesis
    proof
      assume none: "filter ?P (fst (storms_recipe w [])) = []"
      from mem show ?thesis
        unfolding none by simp
    next
      assume one: "filter ?P (fst (storms_recipe w [])) = [?c]"
      from mem show ?thesis
        unfolding one by simp
    qed
  qed
  have completed: "filter ?P (fst (storms_recipe w [])) = [?c] \<and>
      res_traces out = map (chain w) (tallied 10000 1000 10) \<and>
      length (map fst (res_traces out)) = 900 \<and>
      length (map (\<lambda>(s, e, l). e) (res_traces out)) = 900 \<and>
      length (map (\<lambda>(s, e, l). l) (res_traces out)) = 900 \<and>
      length (res_traces out) = (10000 - 1000) div 10"
    if run: "snd (storms_recipe w []) = Inr out"
  proof -
    have "filter ?P (fst (storms_recipe w [])) = [?c]"
      unfolding completed_is_quiet [OF run] quiet_sample_calls
      using completed_nonempty [OF run] by simp
    moreover note completed_values(6) [OF run]
    ultimately show ?thesis
      by (simp add: length_tallied)
  qed
  from completed once only show ?thesis
    by blast
qed

theorem sampler_called_once_witness:
  "filter (is_call ''MCMC.sample'') (fst (storms_recipe example_world [])) =
     [Call ''MCMC.sample''
        [AKw ''iter'' (AInt 10000), AKw ''burn'' (AInt 1000), AKw ''thin'' (AInt 10)]] \<and>
   length (filter (is_call ''MCMC.sample'') (fst (storms_recipe (failing_at 1 ''KeyError'') [])))
     \<le> 1"
proof -
  from quiet_run [OF example_cnt] obtain out where "snd (storms_recipe example_world []) = Inr out"
    by (simp only: example_world_simps snd_conv)
  with sampler_called_once [of example_world out]
    sampler_called_once [of "failing_at 1 ''KeyError''"]
  show ?thesis
    by blast
qed

section \<open>Claims about the data loader and the failures of a run\<close>

text \<open>
  C5. Every run reads exactly one CSV file, at the fixed path, and depends on the file
  system at that path only. The yearly counts depend on the columns \<open>Basin\<close>,
  \<open>Season\<close> and \<open>Serial_Num\<close> only. The index of the counts is the set of seasons of
  the rows whose basin is \<open>' NA'\<close>, and the count of such a season is the number of
  distinct serial numbers among the rows of that basin and season. The series a completed
  run holds is this one.
\<close>

theorem loader_counts:
  "filter is_ReadCsv (fst (notebook read_csv sample)) =
     [ReadCsv ''data/Allstorms.ibtracs_wmo.v03r05.csv''] \<and>
   (read_csv' csv_path = read_csv csv_path \<longrightarrow>
      notebook read_csv' sample = notebook read_csv sample) \<and>
   (map storm.truncate df' = map storm.truncate df \<longrightarrow> cnt df' = cnt df) \<and>
   fst ` set (cnt df) = Season ` {r \<in> set df. Basin r = '' NA''} \<and>
   (\<forall>y \<in> Season ` {r \<in> set df. Basin r = '' NA''}.
      map_of (cnt df) y =
        Some (int (card (Serial_Num ` {r \<in> set df. Basin r = '' NA'' \<and> Season r = y})))) \<and>
   (read_csv csv_path = Inr df \<and> snd (notebook read_csv sample) = Inr out \<longrightarrow>
      zip (out_years out) (out_arr out) = cnt df)"
proof -
  have reads: "filter is_ReadCsv (fst (notebook read_csv sample)) =
     [ReadCsv ''data/Allstorms.ibtracs_wmo.v03r05.csv'']"
    by (simp only: notebook_reads) (simp add: csv_path_def)
  have index: "fst ` set (cnt df) = Season ` {r \<in> set df. Basin r = '' NA''}"
    using set_years_cnt [of df] by simp
  have vals: "zip (out_years out) (out_arr out) = cnt df"
    if "read_csv csv_path = Inr df" and "snd (notebook read_csv sample) = Inr out"
  proof -
    from notebook_values [OF that]
    have "out_years out = map fst (cnt df)" and "out_arr out = map snd (cnt df)"
      by blast+
    then show ?thesis
      by (simp only: zip_map_fst_snd)
  qed
  have path: "read_csv' csv_path = read_csv csv_path \<longrightarrow>
      notebook read_csv' sample = notebook read_csv sample"
    by (rule impI) (rule notebook_only_path)
  have columns: "map storm.truncate df' = map storm.truncate df \<longrightarrow> cnt df' = cnt df"
    by (rule impI) (rule cnt_truncate)
  have counts: "\<forall>y \<in> Season ` {r \<in> set df. Basin r = '' NA''}.
      map_of (cnt df) y =
        Some (int (card (Serial_Num ` {r \<in> set df. Basin r = '' NA'' \<and> Season r = y})))"
    by (rule ballI) (rule map_of_cnt)
  from reads path columns index counts vals show ?thesis
    by blast
qed

theorem loader_counts_witness:
  "filter is_ReadCsv (fst (notebook example_read_csv example_sample)) =
     [ReadCsv ''data/Allstorms.ibtracs_wmo.v03r05.csv''] \<and>
   notebook (\<lambda>p. Inr example_table) example_sample =
     notebook example_read_csv example_sample \<and>
   cnt (map (\<lambda>r. storm.extend r ''1951-08-12 06:00'') example_table) = cnt example_table \<and>
   fst ` set (cnt example_table) = {1950, 1951} \<and>
   card (Serial_Num ` {r \<in> set example_table. Basin r = '' NA'' \<and> Season r = 1950}) = 1 \<and>
   card (Serial_Num ` {r \<in> set example_table. Basin r = '' NA'' \<and> Season r = 1951}) = 2"
proof -
  note inst = loader_counts [where read_csv = example_read_csv and sample = example_sample
      and df = example_table and read_csv' = "\<lambda>p. Inr example_table"
      and df' = "map (\<lambda>r. storm.extend r ''1951-08-12 06:00'') example_table"]
  have seasons: "Season ` {r \<in> set example_table. Basin r = '' NA''} = {1950, 1951}"
    using set_years_cnt [of example_table] by (simp add: cnt_example)
  have same_path: "(\<lambda>p. Inr example_table) csv_path = example_read_csv csv_path"
    by (simp add: example_read_csv_def)
  have same_columns:
    "map storm.truncate (map (\<lambda>r. storm.extend r ''1951-08-12 06:00'') example_table) =
       map storm.truncate example_table"
    by (simp add: storm.defs comp_def)
  from inst have reads: "filter is_ReadCsv (fst (notebook example_read_csv example_sample)) =
     [ReadCsv ''data/Allstorms.ibtracs_wmo.v03r05.csv'']"
    by blast
  from inst same_path have path: "notebook (\<lambda>p. Inr example_table) example_sample =
     notebook example_read_csv example_sample"
    by blast
  from inst same_columns
  have columns: "cnt (map (\<lambda>r. storm.extend r ''1951-08-12 06:00'') example_table) =
      cnt example_table"
    by blast
  from inst have index: "fst ` set (cnt example_table) = {1950, 1951}"
    unfolding seasons by blast
  from inst have "\<forall>y \<in> {1950, 1951}. map_of (cnt example_table) y =
      Some (int (card (Serial_Num ` {r \<in> set example_table. Basin r = '' NA'' \<and> Season r = y})))"
    unfolding seasons by blast
  then have counts:
    "card (Serial_Num ` {r \<in> set example_table. Basin r = '' NA'' \<and> Season r = 1950}) = 1"
    "card (Serial_Num ` {r \<in> set example_table. Basin r = '' NA'' \<and> Season r = 1951}) = 2"
    by (simp_all add: cnt_example)
  from reads path columns index counts show ?thesis
    by blast
qed

text \<open>
  C10, as amended. When some row of the table has the basin \<open>' NA'\<close>, the index of the
  yearly counts is strictly increasing, so \<open>y0 = years[0]\<close> is the least season and
  \<open>y1 = years[-1]\<close> the greatest, and \<open>y0 \<le> y1\<close>; the count at every position is the
  count of the year at that position. A run that completes holds these years and counts,
  plots the years against the counts before and after the fit, and gives the counts
  unchanged and in the same order to the observed node. The plots of the posterior turn a
  switch position \<open>p\<close> into the year \<open>y0 + p\<close>; that is \<open>years[p]\<close> at every position of the
  index when the seasons of the \<open>' NA'\<close> rows are consecutive.
\<close>

theorem years_aligned_amended:
  fixes w :: "('e, 'x) world"
  defines "df \<equiv> csv_file w csv_path"
  defines "years \<equiv> map fst (cnt df)" and "arr \<equiv> map snd (cnt df)"
    and "seasons \<equiv> Season ` {r \<in> set df. Basin r = '' NA''}"
  assumes table: "filter (\<lambda>r. Basin r = '' NA'') df \<noteq> []"
  shows "sorted_wrt (<) years \<and>
         getitem years 0 = (Inr (Min seasons) :: 'e exn + int) \<and>
         getitem years (- 1) = (Inr (Max seasons) :: 'e exn + int) \<and>
         Min seasons \<le> Max seasons \<and>
         length arr = length years \<and>
         (\<forall>i < length years.
            arr ! i =
              int (card (Serial_Num ` {r \<in> set df. Basin r = '' NA'' \<and> Season r = years ! i}))) \<and>
         (\<forall>out. snd (storms_recipe w []) = Inr out \<longrightarrow>
            res_years out = years \<and> res_arr out = arr \<and>
            res_y0 out = Min seasons \<and> res_y1 out = Max seasons \<and>
            filter (is_call ''pymc.Poisson'') (fst (storms_recipe w [])) =
              [Call ''pymc.Poisson''
                 [AStr ''storms'', AKw ''mu'' (ANode rate_node), AKw ''value'' (AInts arr),
                  AKw ''observed'' (ABools [True])]] \<and>
            take 5 (filter (is_call ''plt.plot'') (fst (storms_recipe w []))) =
              [plt_plot [AInts years, AInts arr, AStr ''-ok''],
               plt_plot [AInts (map fst (res_traces out))],
               plt_plot [AReals (map (\<lambda>(s, e, l). e) (res_traces out))],
               plt_plot [AReals (map (\<lambda>(s, e, l). l) (res_traces out))],
               plt_plot [AInts years, AInts arr, AStr ''-ok'']] \<and>
            filter (is_call ''plt.hist'') (fst (storms_recipe w [])) ! 0 =
              plt_hist (AInts (map (\<lambda>p. p + Min seasons) (map fst (res_traces out)))) 15 \<and>
            res_yp out =
              real_of_int (Min seasons) + mean (map real_of_int (map fst (res_traces out)))) \<and>
         (seasons = {Min seasons..Max seasons} \<longrightarrow>
            (\<forall>p < length years. Min seasons + int p = years ! p))"
proof -
  have set_years: "set years = seasons"
    unfolding years_def seasons_def by (rule set_years_cnt)
  from table obtain r where "r \<in> set df" and "Basin r = '' NA''"
    by (auto simp: filter_empty_conv)
  then have member: "Season r \<in> seasons"
    unfolding seasons_def by blast
  with set_years have ne: "years \<noteq> []"
    by auto
  have srt: "sorted years" and dst: "distinct years"
    unfolding years_def by (rule sorted_years_cnt, rule distinct_years_cnt)
  then have strict: "sorted_wrt (<) years"
    by (simp add: strict_sorted_iff)
  have ymin: "hd years = Min seasons" and ymax: "last years = Max seasons"
    using sorted_hd_Min [OF srt ne] sorted_last_Max [OF srt ne] set_years by simp_all
  have fin: "finite seasons"
    unfolding set_years [symmetric] by (rule finite_set)
  have range: "Min seasons \<le> Max seasons"
  proof -
    have "Min seasons \<le> Season r" and "Season r \<le> Max seasons"
      using fin member by (rule Min_le, rule Max_ge)
    then show ?thesis
      by (rule order_trans)
  qed
  have len: "length arr = length years"
    unfolding arr_def years_def by simp
  have counts: "arr ! i =
      int (card (Serial_Num ` {r \<in> set df. Basin r = '' NA'' \<and> Season r = years ! i}))"
    if "i < length years" for i
  proof -
    have "arr = map (\<lambda>y. int (card (Serial_Num ` {r \<in> set df. Basin r = '' NA'' \<and> Season r = y})))
        years"
      unfolding arr_def years_def by (rule arr_cnt)
    then show ?thesis
      using that by (simp only: nth_map)
  qed
  have y0: "getitem years 0 = (Inr (Min seasons) :: 'e exn + int)"
    using getitem_first [OF ne] ymin by simp
  have y1: "getitem years (- 1) = (Inr (Max seasons) :: 'e exn + int)"
    using getitem_last [OF ne] ymax by simp
  have completed: "res_years out = years \<and> res_arr out = arr \<and>
      res_y0 out = Min seasons \<and> res_y1 out = Max seasons \<and>
      filter (is_call ''pymc.Poisson'') (fst (storms_recipe w [])) =
        [Call ''pymc.Poisson''
           [AStr ''storms'', AKw ''mu'' (ANode rate_node), AKw ''value'' (AInts arr),
            AKw ''observed'' (ABools [True])]] \<and>
      take 5 (filter (is_call ''plt.plot'') (fst (storms_recipe w []))) =
        [plt_plot [AInts years, AInts arr, AStr ''-ok''],
         plt_plot [AInts (map fst (res_traces out))],
         plt_plot [AReals (map (\<lambda>(s, e, l). e) (res_traces out))],
         plt_plot [AReals (map (\<lambda>(s, e, l). l) (res_traces out))],
         plt_plot [AInts years, AInts arr, AStr ''-ok'']] \<and>
      filter (is_call ''plt.hist'') (fst (storms_recipe w [])) ! 0 =
        plt_hist (AInts (map (\<lambda>p. p + Min seasons) (map fst (res_traces out)))) 15 \<and>
      res_yp out = real_of_int (Min seasons) + mean (map real_of_int (map fst (res_traces out)))"
    if run: "snd (storms_recipe w []) = Inr out" for out
  proof -
    note vals = completed_values [OF run, folded df_def, folded years_def arr_def]
    note plots = completed_plots [OF run, folded df_def, folded years_def arr_def]
    have "filter (is_call ''plt.hist'') (fst (storms_recipe w [])) ! 0 =
        plt_hist (AInts (map (\<lambda>p. p + hd years) (map fst (res_traces out)))) 15"
      by (simp only: plots(3) nth_Cons_0)
    moreover have "res_yp out =
        real_of_int (hd years) + mean (map real_of_int (map fst (res_traces out)))"
      by (simp only: vals(6,7))
    ultimately show ?thesis
      using vals(1-4) plots(1,2) by (simp only: ymin ymax simp_thms)
  qed
  have consecutive: "Min seasons + int p = years ! p"
    if "seasons = {Min seasons..Max seasons}" and "p < length years" for p
  proof -
    from set_years that(1) have "set years = {Min seasons..Max seasons}"
      by simp
    with srt dst have "years ! p = Min seasons + int p"
      using that(2) by (rule consecutive_nth)
    then show ?thesis
      by simp
  qed
  from strict y0 y1 range len counts completed consecutive show ?thesis
    by blast
qed

theorem years_aligned_amended_witness:
  "sorted_wrt (<) (map fst (cnt (csv_file example_world csv_path))) \<and>
   getitem (map fst (cnt (csv_file example_world csv_path))) 0 = (Inr 1950 :: string exn + int) \<and>
   getitem (map fst (cnt (csv_file example_world csv_path))) (- 1) =
     (Inr 1951 :: string exn + int) \<and>
   1950 + int 1 = map fst (cnt (csv_file example_world csv_path)) ! 1 \<and>
   filter (is_call ''plt.hist'') (fst (storms_recipe example_world [])) ! 0 =
     plt_hist (AInts (replicate 900 1951)) 15"
proof -
  have table: "filter (\<lambda>r. Basin r = '' NA'') (csv_file example_world csv_path) \<noteq> []"
    by (simp add: example_world_simps example_table_def)
  from quiet_run [OF example_cnt] obtain out
    where run: "snd (storms_recipe example_world []) = Inr out"
    by (simp only: example_world_simps snd_conv)
  have traces: "res_traces out = replicate 900 (1, 3, 5)"
    using completed_values(6) [OF run] by (simp only: example_world_simps constant_chain)
  have bounds: "Min {1950, 1951 :: int} = 1950" "Max {1950, 1951 :: int} = 1951"
    by simp_all
  note inst = years_aligned_amended [where w = example_world, OF table,
      unfolded example_seasons bounds]
  from inst have "sorted_wrt (<) (map fst (cnt (csv_file example_world csv_path)))"
    and "getitem (map fst (cnt (csv_file example_world csv_path))) 0 =
      (Inr 1950 :: string exn + int)"
    and "getitem (map fst (cnt (csv_file example_world csv_path))) (- 1) =
      (Inr 1951 :: string exn + int)"
    by blast+
  moreover from inst have "\<forall>p < length (map fst (cnt (csv_file example_world csv_path))).
      1950 + int p = map fst (cnt (csv_file example_world csv_path)) ! p"
    by blast
  then have "1950 + int 1 = map fst (cnt (csv_file example_world csv_path)) ! 1"
    by (simp add: example_world_simps cnt_example)
  moreover from inst run have "filter (is_call ''plt.hist'') (fst (storms_recipe example_world [])) ! 0 =
      plt_hist (AInts (map (\<lambda>p. p + 1950) (map fst (res_traces out)))) 15"
    by blast
  then have "filter (is_call ''plt.hist'') (fst (storms_recipe example_world [])) ! 0 =
      plt_hist (AInts (replicate 900 1951)) 15"
    by (simp add: traces)
  ultimately show ?thesis
    by blast
qed

text \<open>
  The claim as first stated, that the alignment of positions and years is kept through
  all the plotting, fails on a table with a gap between seasons: with the seasons 1950
  and 1960, position 1 of the index is the year 1960, and a chain that stays at switch
  position 1 is drawn at 1951, a year that is not in the index.
\<close>

theorem years_misaligned_counterexample:
  "filter (\<lambda>r. Basin r = '' NA'') (csv_file gap_world csv_path) \<noteq> [] \<and>
   snd (storms_recipe gap_world []) =
     Inr \<lparr>res_years = [1950, 1960], res_arr = [1, 2], res_y0 = 1950, res_y1 = 1960,
          res_model = model [1, 2], res_traces = replicate 900 (1, 3, 5), res_yp = 1951,
          res_em = 3, res_lm = 5\<rparr> \<and>
   [1950, 1960] ! 1 = (1960 :: int) \<and>
   filter (is_call ''plt.hist'') (fst (storms_recipe gap_world [])) ! 0 =
     plt_hist (AInts (replicate 900 1951)) 15 \<and>
   (1951 :: int) \<notin> set [1950, 1960]"
proof -
  have table: "filter (\<lambda>r. Basin r = '' NA'') (csv_file gap_world csv_path) \<noteq> []"
    by (simp add: gap_world_simps gap_table_def)
  have "filter (is_call ''plt.hist'') (fst (storms_recipe gap_world [])) ! 0 =
      plt_hist (AInts (map (\<lambda>p. p + hd (map fst (cnt (csv_file gap_world csv_path))))
        (map fst (replicate 900 (1, 3 :: real, 5 :: real))))) 15"
    using completed_plots(3) [OF gap_run] by simp
  then have hist: "filter (is_call ''plt.hist'') (fst (storms_recipe gap_world [])) ! 0 =
      plt_hist (AInts (replicate 900 1951)) 15"
    by (simp add: gap_world_simps cnt_gap)
  from table gap_run hist show ?thesis
    by simp
qed



section \<open>Claims about the number theory recipe\<close>

text \<open>
  C7. \<open>primepi(2011)\<close> is the number of primes \<open>p \<le> 2011\<close>. Since 2011 is itself a
  prime, it is one of the primes counted: the count is one more than the number of primes
  below 2011.
\<close>

theorem primepi_counts_2011:
  "primepi 2011 = int (card {p. isprime p \<and> p \<le> 2011}) \<and>
   isprime 2011 \<and>
   2011 \<in> {p. isprime p \<and> p \<le> 2011} \<and>
   primepi 2011 = int (card {p. isprime p \<and> p < 2011}) + 1"
proof -
  have "{p. isprime p \<and> p < 2011} = {p. isprime p \<and> p \<le> 2010}"
    by auto
  then have below: "int (card {p. isprime p \<and> p < 2011}) = primepi 2010"
    by (simp only: primepi_card)
  have "primepi (2010 + 1) = primepi 2010 + (if isprime (2010 + 1) then 1 else 0)"
    by (rule primepi_step) simp
  then have "primepi 2011 = primepi 2010 + 1"
    using isprime_2011 by simp
  with below isprime_2011 show ?thesis
    by (simp add: primepi_card)
qed

theorem primepi_counts_2011_witness:
  "isprime 2011 \<and> primepi 2011 = int (card {p. isprime p \<and> p < 2011}) + 1"
  using primepi_counts_2011 by blast

text \<open>
  C8. \<open>solve_congruence((1, 3), (2, 4), (3, 5))\<close> returns \<open>(58, 60)\<close>: 58 leaves the
  remainders 1, 2 and 3 modulo 3, 4 and 5, 60 is the least common multiple of the moduli,
  and the solutions of the three congruences are exactly the integers 58 plus a multiple
  of 60.
\<close>

theorem marbles_congruence:
  "solve_congruence [(1, 3), (2, 4), (3, 5)] = Some (58, 60) \<and>
   (58 :: int) mod 3 = 1 \<and> (58 :: int) mod 4 = 2 \<and> (58 :: int) mod 5 = 3 \<and>
   lcm 3 (lcm 4 5) = (60 :: int) \<and>
   (\<forall>y :: int. (y mod 3 = 1 \<and> y mod 4 = 2 \<and> y mod 5 = 3) = (\<exists>k. y = 58 + 60 * k))"
proof -
  have solved: "solve_congruence [(1, 3), (2, 4), (3, 5)] = Some (58, 60)"
    by code_simp
  have modulus: "lcm 3 (lcm 4 5) = (60 :: int)"
    by code_simp
  have "\<forall>y :: int. (y mod 3 = 1 \<and> y mod 4 = 2 \<and> y mod 5 = 3) = (\<exists>k. y = 58 + 60 * k)"
    by (rule allI) (rule crt_3_4_5)
  with solved modulus show ?thesis
    by simp
qed

theorem marbles_congruence_witness:
  "solve_congruence [(1, 3), (2, 4), (3, 5)] = Some (58, 60)"
  using marbles_congruence by blast

end
